theory Spec2Isabelle
  imports Complex_Main "HOL-Library.Multiset"
begin

section \<open>Python values and errors\<close>

text \<open>
  The repository is Python. Every exception the modelled code can raise is a value of
  \<open>py_error\<close>; a function that can raise returns \<open>py_error + 'a\<close> with \<open>Inl\<close> the
  exception. Python floats are read as exact rationals; where the code rounds with
  \<open>round(x, 2)\<close> the rounding function is a parameter \<open>rnd\<close> of the model, applied to
  the exact quotient. The float32 and bfloat16 values of the temperature schedule are the
  rationals they denote.
\<close>

datatype py_error =
    ZeroDivisionError
  | IndexError
  | RuntimeError
  | TypeError
  | NameError string
  | KeyError string
  | WandbError
  | OSError

text \<open>\<open>str.lower()\<close> on the ASCII letters: a \<open>char\<close> is a byte, and the bytes that are not
  ASCII capitals are left as they are.\<close>

definition lower_char :: "char \<Rightarrow> char" where
  "lower_char c =
     (case map_of (zip ''ABCDEFGHIJKLMNOPQRSTUVWXYZ'' ''abcdefghijklmnopqrstuvwxyz'') c of
        Some l \<Rightarrow> l
      | None \<Rightarrow> c)"

definition lower :: "string \<Rightarrow> string" where
  "lower s = map lower_char s"

text \<open>\<open>round(correct_count / total_count, 2)\<close>: Python's true division raises on a zero
  divisor.\<close>

definition accuracy :: "(rat \<Rightarrow> rat) \<Rightarrow> nat \<Rightarrow> nat \<Rightarrow> py_error + rat" where
  "accuracy rnd correct_count total_count =
     (if total_count = 0 then Inl ZeroDivisionError
      else Inr (rnd (of_nat correct_count / of_nat total_count)))"

section \<open>trainer.py: counting correct predictions\<close>

text \<open>
  An evaluated batch is the pair \<open>(target_decoded, pred_decoded)\<close> of the decoded last
  label tokens and the decoded model outputs; the tokenizer and the model that produce
  them are outside the repository.
  \<^verbatim>\<open>
  correct_labels = torch.tensor([
      target.lower() == pred.lower()
      for target, pred in zip(target_decoded, pred_decoded)])
  total_count += len(correct_labels)
  correct_count += correct_labels.sum().tolist()
  \<close>
\<close>

type_synonym decoded_batch = "string list \<times> string list"

definition correct_labels :: "string list \<Rightarrow> string list \<Rightarrow> bool list" where
  "correct_labels target_decoded pred_decoded =
     map (\<lambda>(target, pred). lower target = lower pred) (zip target_decoded pred_decoded)"

definition tensor_sum :: "bool list \<Rightarrow> nat" where
  "tensor_sum bs = length (filter (\<lambda>b. b) bs)"

text \<open>The loop over a dataloader; the accumulator is \<open>(total_count, correct_count)\<close>.\<close>

fun eval_counts :: "decoded_batch list \<Rightarrow> nat \<times> nat \<Rightarrow> nat \<times> nat" where
  "eval_counts [] acc = acc"
| "eval_counts ((target_decoded, pred_decoded) # rest) (total_count, correct_count) =
     eval_counts rest
       (total_count + length (correct_labels target_decoded pred_decoded),
        correct_count + tensor_sum (correct_labels target_decoded pred_decoded))"

text \<open>
  \<open>AlpacaAligner.prealign_eval\<close>: the counts start at zero, the accuracy is computed
  after the loop with no test of \<open>total_count\<close>, and the value returned here is the
  accuracy the method logs.
\<close>

definition prealign_eval :: "(rat \<Rightarrow> rat) \<Rightarrow> decoded_batch list \<Rightarrow> py_error + rat" where
  "prealign_eval rnd prealign_dataloader =
     (case eval_counts prealign_dataloader (0, 0) of
        (total_count, correct_count) \<Rightarrow> accuracy rnd correct_count total_count)"

section \<open>run_alignment.py: compute_metrics\<close>

text \<open>
  Tensors are nested lists. \<open>t[:, -1]\<close> takes the last entry of every row and raises
  IndexError when the rows are empty; \<open>torch.argmax\<close> over an empty dimension raises
  IndexError and returns the first index of the maximum otherwise; \<open>==\<close> on two
  one-dimensional tensors compares entry by entry, broadcasts a tensor of length one and
  raises RuntimeError on any other mismatch of lengths.
\<close>

definition last_column :: "'a list list \<Rightarrow> py_error + 'a list" where
  "last_column rows = (if [] \<in> set rows then Inl IndexError else Inr (map last rows))"

fun argmax_from :: "nat \<Rightarrow> 'a::linorder \<Rightarrow> nat \<Rightarrow> 'a list \<Rightarrow> nat" where
  "argmax_from best_i best i [] = best_i"
| "argmax_from best_i best i (x # xs) =
     (if best < x then argmax_from i x (Suc i) xs else argmax_from best_i best (Suc i) xs)"

definition argmax :: "'a::linorder list \<Rightarrow> py_error + nat" where
  "argmax xs = (case xs of [] \<Rightarrow> Inl IndexError | x # rest \<Rightarrow> Inr (argmax_from 0 x 1 rest))"

fun argmax_rows :: "'a::linorder list list \<Rightarrow> py_error + nat list" where
  "argmax_rows [] = Inr []"
| "argmax_rows (r # rs) =
     (case argmax r of
        Inl e \<Rightarrow> Inl e
      | Inr i \<Rightarrow> (case argmax_rows rs of Inl e \<Rightarrow> Inl e | Inr is \<Rightarrow> Inr (i # is)))"

definition tensor_eq :: "int list \<Rightarrow> int list \<Rightarrow> py_error + bool list" where
  "tensor_eq a b =
     (if length a = length b then Inr (map (\<lambda>(x, y). x = y) (zip a b))
      else if length a = 1 then Inr (map (\<lambda>y. hd a = y) b)
      else if length b = 1 then Inr (map (\<lambda>x. x = hd b) a)
      else Inl RuntimeError)"

text \<open>
  One iteration of the loop of \<open>compute_metrics\<close>:
  \<^verbatim>\<open>
  actual_test_labels = eval_label[:, -1]
  pred_test_labels = torch.argmax(eval_pred[:, -1], dim=-1)
  correct_labels = (actual_test_labels == pred_test_labels)
  \<close>
\<close>

definition batch_correct_labels ::
  "'a::linorder list list list \<Rightarrow> int list list \<Rightarrow> py_error + bool list" where
  "batch_correct_labels eval_pred eval_label =
     (case last_column eval_label of
        Inl e \<Rightarrow> Inl e
      | Inr actual_test_labels \<Rightarrow>
          (case last_column eval_pred of
             Inl e \<Rightarrow> Inl e
           | Inr last_logits \<Rightarrow>
               (case argmax_rows last_logits of
                  Inl e \<Rightarrow> Inl e
                | Inr pred_test_labels \<Rightarrow>
                    tensor_eq actual_test_labels (map int pred_test_labels))))"

fun metrics_counts ::
  "('a::linorder list list list \<times> int list list) list \<Rightarrow> nat \<times> nat \<Rightarrow> py_error + nat \<times> nat" where
  "metrics_counts [] acc = Inr acc"
| "metrics_counts ((eval_pred, eval_label) # rest) (total_count, correct_count) =
     (case batch_correct_labels eval_pred eval_label of
        Inl e \<Rightarrow> Inl e
      | Inr cl \<Rightarrow>
          metrics_counts rest (total_count + length cl, correct_count + tensor_sum cl))"

definition compute_metrics ::
  "(rat \<Rightarrow> rat) \<Rightarrow> 'a::linorder list list list list \<Rightarrow> int list list list \<Rightarrow> py_error + rat" where
  "compute_metrics rnd eval_preds eval_labels =
     (case metrics_counts (zip eval_preds eval_labels) (0, 0) of
        Inl e \<Rightarrow> Inl e
      | Inr (total_count, correct_count) \<Rightarrow> accuracy rnd correct_count total_count)"

section \<open>trainer.py: the training loop\<close>

text \<open>
  \<open>AlpacaAligner.train\<close> is modelled as a function from its arguments to either the
  exception that ends it or the final state of the run. The state holds the variables of
  the method and of the model that the control flow reads or writes, and a trace of the
  calls made on the model, the optimizer, the log sinks and the checkpoint files, in the
  order of the calls. The forward passes, the loss and the decoded predictions come from
  the pretrained model and are inputs of the run: \<open>dev_outputs k\<close> is what the
  evaluation pass started at step \<open>k\<close> decodes on the dev set, \<open>test_outputs\<close> what the
  final pass decodes on the test set. \<open>DevPass k m g\<close> is the pass over the dev set
  started at step \<open>k\<close>, with the mode \<open>m\<close> of the model at that moment and \<open>g\<close> telling
  whether gradients are recorded (the pass is inside \<open>with torch.no_grad()\<close>);
  \<open>TestPass\<close> is the same for the final pass. A training batch is identified by the value of
  \<open>total_step\<close> at which it is processed, and \<open>grads\<close> lists the batches whose
  \<open>loss.backward\<close> has added to the gradient buffers since they were last zeroed.
  The constructor calls \<open>wandb.init\<close> when \<open>args.is_wandb\<close> and \<open>is_master\<close> both hold
  (lines 66 to 73), and \<open>wandb.log\<close> raises \<open>wandb.Error\<close> (\<open>WandbError\<close> here) in a process
  where \<open>wandb.init\<close> has not been called. The calls of \<open>wandb.log\<close> under
  \<open>if self.is_wandb\<close> are all inside blocks of the master process, where wandb has been
  initialised; they and the writes to the log files are taken not to raise. When an
  exception ends the run, the result is the exception alone.
\<close>

datatype model_mode = TrainMode | EvalMode

datatype event =
    SetMode model_mode
  | SetTemperature rat
  | TrainLog nat
  | DevPass nat model_mode bool
  | EvalLog nat rat
  | SaveModel string rat
  | Backward nat
  | OptimizerStep "nat list"
  | SchedulerStep
  | ZeroGrad
  | TestPass nat model_mode bool
  | TestLog nat rat

record trainer =
  mode :: model_mode
  temperature :: rat
  total_step :: nat
  total_log_step :: nat
  best_eval_acc :: rat
  grads :: "nat list"
  events :: "event list"

record train_args =
  is_master :: bool
  is_wandb :: bool
  round2 :: "rat \<Rightarrow> rat"
  train_batches :: nat
  dev_outputs :: "nat \<Rightarrow> decoded_batch list"
  test_outputs :: "decoded_batch list"
  log_step :: int
  valid_steps :: int
  epochs :: int
  gradient_accumulation_steps :: int

definition emit :: "event list \<Rightarrow> trainer \<Rightarrow> trainer" where
  "emit es s = s\<lparr>events := events s @ es\<rparr>"

text \<open>\<open>self.model.train()\<close> and \<open>self.model.eval()\<close>.\<close>

definition set_mode :: "model_mode \<Rightarrow> trainer \<Rightarrow> trainer" where
  "set_mode m s = emit [SetMode m] (s\<lparr>mode := m\<rparr>)"

text \<open>Python's \<open>%\<close> on integers: the result has the sign of the divisor, as \<open>mod\<close> on
  \<open>int\<close> has, and a zero divisor raises.\<close>

definition py_mod :: "int \<Rightarrow> int \<Rightarrow> py_error + int" where
  "py_mod a b = (if b = 0 then Inl ZeroDivisionError else Inr (a mod b))"

subsection \<open>The temperature schedule\<close>

text \<open>
  \<^verbatim>\<open>
  target_total_step = len(train_dataloader) * int(epochs)
  temperature_start = 50.0
  temperature_end = 0.1
  temperature_schedule = torch.linspace(
      temperature_start, temperature_end, target_total_step).to(torch.bfloat16)
  self.model.set_temperature(temperature_schedule[total_step])
  \<close>
  \<open>torch.linspace\<close> returns \<open>steps\<close> evenly spaced points from \<open>start\<close> to \<open>end\<close>, the
  single point \<open>start\<close> when \<open>steps\<close> is 1, and raises for a negative number of steps.
  Its result is a float32 tensor, which \<open>.to(torch.bfloat16)\<close> rounds to bfloat16.

  A binary floating-point format with \<open>p\<close> significant bits holds the numbers
  \<open>m * 2 ^ e\<close> with \<open>m\<close> an integer of at most \<open>p\<close> bits; float32 has 24 significant
  bits and bfloat16 has 8. Conversion rounds to the nearest such number, a tie going to
  the even significand. \<open>round_unit p x\<close> rounds an \<open>x\<close> between 1 and 2;
  \<open>round_significand\<close> scales a positive number into that interval by halving or
  doubling, rounds it there and scales it back. The exponent range of the formats
  (overflow and subnormal numbers) is not modelled: the 160 halvings or doublings allowed
  cover the normal range of both, and the schedule lies between \<open>0.1\<close> and \<open>50\<close>. Each
  float32 point of \<open>torch.linspace\<close> is taken to be the float32 nearest to the exact
  point. The kernel computes a point with a float32 division, a multiplication and an
  addition, which can leave it one or two units in the last place of float32 away from
  that; the cast to bfloat16 that follows keeps 8 of the 24 bits.
\<close>

definition round_half_even :: "rat \<Rightarrow> int" where
  "round_half_even q =
     (let f = \<lfloor>q\<rfloor>; d = q - of_int f
      in if d < 1 / 2 then f
         else if 1 / 2 < d then f + 1
         else if even f then f else f + 1)"

definition round_unit :: "nat \<Rightarrow> rat \<Rightarrow> rat" where
  "round_unit p x = of_int (round_half_even (x * 2 ^ (p - 1))) / 2 ^ (p - 1)"

fun round_significand :: "nat \<Rightarrow> nat \<Rightarrow> rat \<Rightarrow> rat" where
  "round_significand 0 p x = x"
| "round_significand (Suc fuel) p x =
     (if x < 1 then round_significand fuel p (x * 2) / 2
      else if 2 \<le> x then round_significand fuel p (x / 2) * 2
      else round_unit p x)"

definition round_to_bits :: "nat \<Rightarrow> rat \<Rightarrow> rat" where
  "round_to_bits p x =
     (if x = 0 then 0
      else if x < 0 then - round_significand 160 p (- x)
      else round_significand 160 p x)"

definition to_float32 :: "rat \<Rightarrow> rat" where
  "to_float32 x = round_to_bits 24 x"

definition to_bfloat16 :: "rat \<Rightarrow> rat" where
  "to_bfloat16 x = round_to_bits 8 x"

definition temperature_start :: rat where
  "temperature_start = 50"

definition temperature_end :: rat where
  "temperature_end = 1 / 10"

definition linspace :: "rat \<Rightarrow> rat \<Rightarrow> nat \<Rightarrow> rat list" where
  "linspace start stop steps =
     (if steps = 1 then [start]
      else map (\<lambda>i. start + of_nat i * ((stop - start) / of_nat (steps - 1))) [0..<steps])"

definition target_total_step :: "train_args \<Rightarrow> int" where
  "target_total_step a = int (train_batches a) * epochs a"

definition temperature_schedule :: "train_args \<Rightarrow> py_error + rat list" where
  "temperature_schedule a =
     (if target_total_step a < 0 then Inl RuntimeError
      else Inr (map to_bfloat16
                  (map to_float32
                     (linspace temperature_start temperature_end (nat (target_total_step a))))))"

definition schedule_at :: "rat list \<Rightarrow> nat \<Rightarrow> py_error + rat" where
  "schedule_at sched i = (if i < length sched then Inr (sched ! i) else Inl IndexError)"

subsection \<open>Logging and periodic evaluation (lines 253 to 359)\<close>

text \<open>
  \<^verbatim>\<open>
  if self.is_master and total_step % log_step == 0:
      ...
      if total_step != 0 and total_step % valid_steps == 0:
  \<close>
  Both conditions short-circuit: the modulus is taken only when the left conjunct holds.
\<close>

definition log_due :: "train_args \<Rightarrow> nat \<Rightarrow> py_error + bool" where
  "log_due a k =
     (if \<not> is_master a then Inr False
      else case py_mod (int k) (log_step a) of Inl e \<Rightarrow> Inl e | Inr r \<Rightarrow> Inr (r = 0))"

definition valid_due :: "train_args \<Rightarrow> nat \<Rightarrow> py_error + bool" where
  "valid_due a k =
     (if k = 0 then Inr False
      else case py_mod (int k) (valid_steps a) of Inl e \<Rightarrow> Inl e | Inr r \<Rightarrow> Inr (r = 0))"

definition best_checkpoint :: string where
  "best_checkpoint = ''pytorch-rotate-best.bin''"

definition last_checkpoint :: string where
  "last_checkpoint = ''pytorch-rotate-last.bin''"

text \<open>\<open>save_model\<close> writes the rotation, the boundaries and the temperature of the model
  under the given file name.\<close>

definition save_model :: "string \<Rightarrow> trainer \<Rightarrow> trainer" where
  "save_model model_name s = emit [SaveModel model_name (temperature s)] s"

text \<open>
  The evaluation block (lines 287 to 357): \<open>self.model.eval()\<close>, the pass over
  \<open>dev_dataloader\<close> under \<open>torch.no_grad()\<close>, the accuracy, its log line, the best
  checkpoint, \<open>self.model.train()\<close>.
\<close>

definition periodic_eval :: "train_args \<Rightarrow> trainer \<Rightarrow> py_error + trainer" where
  "periodic_eval a s =
     (let s1 = set_mode EvalMode s;
          s2 = emit [DevPass (total_step s1) (mode s1) False] s1
      in case eval_counts (dev_outputs a (total_step s2)) (0, 0) of
           (total_count, correct_count) \<Rightarrow>
             (case accuracy (round2 a) correct_count total_count of
                Inl e \<Rightarrow> Inl e
              | Inr current_acc \<Rightarrow>
                  (let s3 = emit [EvalLog (total_step s2) current_acc] s2;
                       s4 = (if current_acc > best_eval_acc s3
                             then (let s5 = s3\<lparr>best_eval_acc := current_acc\<rparr>
                                   in if is_master a then save_model best_checkpoint s5 else s5)
                             else s3)
                   in Inr (set_mode TrainMode s4))))"

definition log_phase :: "train_args \<Rightarrow> trainer \<Rightarrow> py_error + trainer" where
  "log_phase a s =
     (case log_due a (total_step s) of
        Inl e \<Rightarrow> Inl e
      | Inr False \<Rightarrow> Inr s
      | Inr True \<Rightarrow>
          (let s1 = emit [TrainLog (total_step s)] s
           in case valid_due a (total_step s1) of
                Inl e \<Rightarrow> Inl e
              | Inr False \<Rightarrow> Inr (s1\<lparr>total_log_step := total_log_step s1 + 1\<rparr>)
              | Inr True \<Rightarrow>
                  (case periodic_eval a s1 of
                     Inl e \<Rightarrow> Inl e
                   | Inr s2 \<Rightarrow> Inr (s2\<lparr>total_log_step := total_log_step s2 + 1\<rparr>))))"

subsection \<open>The parameter update (lines 363 to 384)\<close>

text \<open>
  \<^verbatim>\<open>
  if gradient_accumulation_steps > 1:
      loss = loss / gradient_accumulation_steps
  if total_step % gradient_accumulation_steps == 0:
      if not (gradient_accumulation_steps > 1 and total_step == 0):
          loss.backward(inputs=self.model.get_learnable_alignment_parameters())
          wandb.log({...})
          optimizer.step()
          scheduler.step()
          self.model.zero_grad()
          self.model.set_temperature(temperature_schedule[total_step])
  total_step += 1
  \<close>
  \<open>loss.backward\<close> is inside the two tests. It adds the gradient of the current batch to
  the buffers, \<open>optimizer.step\<close> consumes the buffers and \<open>zero_grad\<close> empties them. The
  \<open>wandb.log\<close> between them is under no test of \<open>self.is_wandb\<close>: it raises unless the
  constructor has called \<open>wandb.init\<close>.
\<close>

definition wandb_initialized :: "train_args \<Rightarrow> bool" where
  "wandb_initialized a = (is_wandb a \<and> is_master a)"

definition update_due :: "train_args \<Rightarrow> nat \<Rightarrow> py_error + bool" where
  "update_due a k =
     (case py_mod (int k) (gradient_accumulation_steps a) of
        Inl e \<Rightarrow> Inl e
      | Inr r \<Rightarrow> Inr (r = 0 \<and> \<not> (gradient_accumulation_steps a > 1 \<and> k = 0)))"

definition optimizer_update ::
  "train_args \<Rightarrow> rat list \<Rightarrow> trainer \<Rightarrow> py_error + trainer" where
  "optimizer_update a sched s =
     (let s1 = emit [Backward (total_step s)] (s\<lparr>grads := grads s @ [total_step s]\<rparr>)
      in if \<not> wandb_initialized a then Inl WandbError
         else
           (let s2 = emit [OptimizerStep (grads s1), SchedulerStep] s1;
                s3 = emit [ZeroGrad] (s2\<lparr>grads := []\<rparr>)
            in case schedule_at sched (total_step s3) of
                 Inl e \<Rightarrow> Inl e
               | Inr t \<Rightarrow> Inr (emit [SetTemperature t] (s3\<lparr>temperature := t\<rparr>))))"

definition update_phase :: "train_args \<Rightarrow> rat list \<Rightarrow> trainer \<Rightarrow> py_error + trainer" where
  "update_phase a sched s =
     (case update_due a (total_step s) of
        Inl e \<Rightarrow> Inl e
      | Inr False \<Rightarrow> Inr (s\<lparr>total_step := total_step s + 1\<rparr>)
      | Inr True \<Rightarrow>
          (case optimizer_update a sched s of
             Inl e \<Rightarrow> Inl e
           | Inr s1 \<Rightarrow> Inr (s1\<lparr>total_step := total_step s1 + 1\<rparr>)))"

subsection \<open>The loops, the final evaluation and the last checkpoint\<close>

definition train_step :: "train_args \<Rightarrow> rat list \<Rightarrow> trainer \<Rightarrow> py_error + trainer" where
  "train_step a sched s =
     (case log_phase a s of Inl e \<Rightarrow> Inl e | Inr s1 \<Rightarrow> update_phase a sched s1)"

text \<open>The loop over the batches of one epoch, and the loop over the epochs.\<close>

fun batch_loop :: "train_args \<Rightarrow> rat list \<Rightarrow> nat \<Rightarrow> trainer \<Rightarrow> py_error + trainer" where
  "batch_loop a sched 0 s = Inr s"
| "batch_loop a sched (Suc n) s =
     (case train_step a sched s of Inl e \<Rightarrow> Inl e | Inr s1 \<Rightarrow> batch_loop a sched n s1)"

fun epoch_loop :: "train_args \<Rightarrow> rat list \<Rightarrow> nat \<Rightarrow> trainer \<Rightarrow> py_error + trainer" where
  "epoch_loop a sched 0 s = Inr s"
| "epoch_loop a sched (Suc m) s =
     (case batch_loop a sched (train_batches a) s of
        Inl e \<Rightarrow> Inl e
      | Inr s1 \<Rightarrow> epoch_loop a sched m s1)"

text \<open>Lines 390 to 450: the pass over the test set and the last checkpoint, both on the
  master process only.\<close>

definition final_eval :: "train_args \<Rightarrow> trainer \<Rightarrow> py_error + trainer" where
  "final_eval a s =
     (if is_master a then
        (let s1 = set_mode EvalMode s;
             s2 = emit [TestPass (total_step s1) (mode s1) False] s1
         in case eval_counts (test_outputs a) (0, 0) of
              (total_count, correct_count) \<Rightarrow>
                (case accuracy (round2 a) correct_count total_count of
                   Inl e \<Rightarrow> Inl e
                 | Inr current_acc \<Rightarrow> Inr (emit [TestLog (total_step s2) current_acc] s2)))
      else Inr s)"

definition final_save :: "train_args \<Rightarrow> trainer \<Rightarrow> trainer" where
  "final_save a s = (if is_master a then save_model last_checkpoint s else s)"

definition initial_trainer :: "rat \<Rightarrow> trainer" where
  "initial_trainer t0 =
     \<lparr>mode = TrainMode, temperature = t0, total_step = 0, total_log_step = 0,
      best_eval_acc = - 1, grads = [], events = [SetMode TrainMode, SetTemperature t0]\<rparr>"

definition train :: "train_args \<Rightarrow> py_error + trainer" where
  "train a =
     (case temperature_schedule a of
        Inl e \<Rightarrow> Inl e
      | Inr sched \<Rightarrow>
          (case schedule_at sched 0 of
             Inl e \<Rightarrow> Inl e
           | Inr t0 \<Rightarrow>
               (case epoch_loop a sched (nat (epochs a)) (initial_trainer t0) of
                  Inl e \<Rightarrow> Inl e
                | Inr s \<Rightarrow>
                    (case final_eval a s of
                       Inl e \<Rightarrow> Inl e
                     | Inr s1 \<Rightarrow> Inr (final_save a s1)))))"

section \<open>run_alignment.py: the run name and the skip check\<close>

text \<open>
  The script is modelled from the computation of the run name (line 194) to its end. The
  imports, the argument parsing, the tokenizer and the data loading that come before are
  inputs: \<open>cli_args\<close> holds the fields of the argparse namespace that the modelled lines
  read and some of those they do not read (\<open>args_is_wandb\<close> is \<open>args.is_wandb\<close>),
  \<open>das_config\<close> is the configuration that \<open>from_pretrained\<close> has loaded.
\<close>

record cli_args =
  model_path :: string
  model_type :: string
  task_name :: string
  seed :: int
  output_dir :: string
  layer :: int
  token_start :: int
  token_end :: int
  do_align :: bool
  lr :: rat
  warm_up :: rat
  train_batch_size :: int
  eval_batch_size :: int
  n_training_examples :: int
  n_eval_examples :: int
  bf16 :: bool
  args_is_wandb :: bool

record das_config =
  das_layer :: int
  das_token_range :: "int list"

text \<open>The dict \<open>alignment_config\<close>, with keys \<open>layer\<close> and \<open>token_range\<close>; the token range
  is built as a list of two entries.\<close>

record alignment_config =
  config_layer :: int
  config_token_range :: "int \<times> int"

definition list_get :: "'a list \<Rightarrow> nat \<Rightarrow> py_error + 'a" where
  "list_get xs i = (if i < length xs then Inr (xs ! i) else Inl IndexError)"

text \<open>
  \<open>get_das_and_alignment_config\<close>. In its \<open>else\<close> branch the \<open>raise\<close> builds its message
  from the name \<open>model_type\<close>, which is bound neither in the function nor, when the
  function is called, in the module: the exception that comes out is a NameError.
\<close>

definition get_das_and_alignment_config ::
  "cli_args \<Rightarrow> das_config \<Rightarrow> py_error + das_config \<times> alignment_config" where
  "get_das_and_alignment_config args loaded =
     (if model_type args \<noteq> ''llama'' \<and> model_type args \<noteq> ''t5''
      then Inl (NameError ''model_type'')
      else
        (case list_get (das_token_range loaded) 0 of
           Inl e \<Rightarrow> Inl e
         | Inr t0 \<Rightarrow>
             (case list_get (das_token_range loaded) 1 of
                Inl e \<Rightarrow> Inl e
              | Inr t1 \<Rightarrow>
                  (let c = \<lparr>config_layer = das_layer loaded, config_token_range = (t0, t1)\<rparr>;
                       c1 = (if layer args \<ge> 0 then c\<lparr>config_layer := layer args\<rparr> else c);
                       c2 = (if token_start args \<ge> 0
                             then c1\<lparr>config_token_range :=
                                       (token_start args, snd (config_token_range c1))\<rparr>
                             else c1);
                       c3 = (if token_end args \<ge> 0
                             then c2\<lparr>config_token_range :=
                                       (fst (config_token_range c2), token_end args)\<rparr>
                             else c2)
                   in Inr (loaded, c3)))))"

text \<open>\<open>str\<close> of an integer, as an f-string formats it.\<close>

fun str_nat :: "nat \<Rightarrow> string" where
  "str_nat n =
     (if n < 10 then [''0123456789'' ! n]
      else str_nat (n div 10) @ [''0123456789'' ! (n mod 10)])"

definition str_int :: "int \<Rightarrow> string" where
  "str_int i = (if i < 0 then CHR ''-'' # str_nat (nat (- i)) else str_nat (nat i))"

text \<open>\<open>os.path.basename\<close>, \<open>os.path.normpath\<close> and \<open>os.path.join\<close>, as \<open>posixpath\<close>
  defines them.\<close>

fun split_sep :: "string \<Rightarrow> string list" where
  "split_sep [] = [[]]"
| "split_sep (c # cs) =
     (if c = CHR ''/'' then [] # split_sep cs
      else (case split_sep cs of w # ws \<Rightarrow> (c # w) # ws | [] \<Rightarrow> [[c]]))"

definition basename :: "string \<Rightarrow> string" where
  "basename p = last (split_sep p)"

fun join_sep :: "string list \<Rightarrow> string" where
  "join_sep [] = []"
| "join_sep [w] = w"
| "join_sep (w # ws) = w @ ''/'' @ join_sep ws"

fun norm_comps :: "nat \<Rightarrow> string list \<Rightarrow> string list \<Rightarrow> string list" where
  "norm_comps initial_slashes new_comps [] = new_comps"
| "norm_comps initial_slashes new_comps (part # comps) =
     (if part = [] \<or> part = ''.'' then norm_comps initial_slashes new_comps comps
      else if part \<noteq> ''..'' \<or> (initial_slashes = 0 \<and> new_comps = []) \<or>
              (new_comps \<noteq> [] \<and> last new_comps = ''..'')
      then norm_comps initial_slashes (new_comps @ [part]) comps
      else if new_comps \<noteq> [] then norm_comps initial_slashes (butlast new_comps) comps
      else norm_comps initial_slashes new_comps comps)"

definition normpath :: "string \<Rightarrow> string" where
  "normpath path =
     (if path = [] then ''.''
      else
        (let initial_slashes =
               (if take 1 path \<noteq> ''/'' then 0
                else if take 2 path = ''//'' \<and> take 3 path \<noteq> ''///'' then 2 else (1::nat));
             p = replicate initial_slashes CHR ''/'' @
                 join_sep (norm_comps initial_slashes [] (split_sep path))
         in if p = [] then ''.'' else p))"

fun path_join :: "string \<Rightarrow> string list \<Rightarrow> string" where
  "path_join path [] = path"
| "path_join path (b # bs) =
     (if take 1 b = ''/'' then path_join b bs
      else if path = [] \<or> last path = CHR ''/'' then path_join (path @ b) bs
      else path_join (path @ ''/'' @ b) bs)"

text \<open>
  \<^verbatim>\<open>
  model_base_name = os.path.basename(os.path.normpath(args.model_path))
  run_name = f"model:{model_base_name}_task:{args.task_name}_"
             f"seed:{args.seed}_intl:{alignment_config['layer']}_intr:{alignment_config['token_range'][0]},"
             f"{alignment_config['token_range'][1]}"
  output_dir = os.path.join(args.output_dir, run_name)
  file_path = os.path.join(args.output_dir, run_name, "pytorch-rotate-last.bin")
  \<close>
\<close>

definition model_base_name :: "cli_args \<Rightarrow> string" where
  "model_base_name args = basename (normpath (model_path args))"

definition run_name :: "cli_args \<Rightarrow> alignment_config \<Rightarrow> string" where
  "run_name args alignment_config =
     ''model:'' @ model_base_name args @ ''_task:'' @ task_name args @
     ''_seed:'' @ str_int (seed args) @ ''_intl:'' @ str_int (config_layer alignment_config) @
     ''_intr:'' @ str_int (fst (config_token_range alignment_config)) @ '','' @
     str_int (snd (config_token_range alignment_config))"

definition checkpoint_dir :: "cli_args \<Rightarrow> alignment_config \<Rightarrow> string" where
  "checkpoint_dir args alignment_config =
     path_join (output_dir args) [run_name args alignment_config]"

definition file_path :: "cli_args \<Rightarrow> alignment_config \<Rightarrow> string" where
  "file_path args alignment_config =
     path_join (output_dir args) [run_name args alignment_config, last_checkpoint]"

text \<open>
  The operating system, as the script uses it: \<open>os.path.exists\<close>, \<open>os.path.isfile\<close> and
  \<open>os.mkdir\<close> on a file system of type \<open>'fs\<close>. They are parameters of the model.
\<close>

record 'fs os_module =
  os_path_exists :: "'fs \<Rightarrow> string \<Rightarrow> bool"
  os_path_isfile :: "'fs \<Rightarrow> string \<Rightarrow> bool"
  os_mkdir :: "'fs \<Rightarrow> string \<Rightarrow> py_error + 'fs"

text \<open>
  \<^verbatim>\<open>
  is_master = True
  if not os.path.exists(args.output_dir) and is_master:
      os.mkdir(args.output_dir)
  output_dir = os.path.join(args.output_dir, run_name)
  if not os.path.exists(output_dir) and is_master:
      os.mkdir(output_dir)
  \<close>
  The result is the file system after the two tests and the directories made.
\<close>

definition mkdir_if_absent ::
  "'fs os_module \<Rightarrow> string \<Rightarrow> 'fs \<times> string list \<Rightarrow> py_error + 'fs \<times> string list" where
  "mkdir_if_absent os path st =
     (case st of (fs, made) \<Rightarrow>
        (if \<not> os_path_exists os fs path
         then (case os_mkdir os fs path of
                 Inl e \<Rightarrow> Inl e
               | Inr fs' \<Rightarrow> Inr (fs', made @ [path]))
         else Inr (fs, made)))"

definition make_dirs ::
  "'fs os_module \<Rightarrow> 'fs \<Rightarrow> cli_args \<Rightarrow> alignment_config \<Rightarrow> py_error + 'fs \<times> string list" where
  "make_dirs os fs args alignment_config =
     (case mkdir_if_absent os (output_dir args) (fs, []) of
        Inl e \<Rightarrow> Inl e
      | Inr st \<Rightarrow> mkdir_if_absent os (checkpoint_dir args alignment_config) st)"

text \<open>
  The script from the run name to its end (lines 194 to 303). After the two directories
  comes the skip check: \<open>quit()\<close> ends the run with the skip logged and nothing else
  done. Otherwise the script saves the configuration, loads the model, builds the
  optimizer, calls \<open>wandb.init\<close> under \<open>--is_wandb\<close>, constructs the aligner, runs the
  pre-alignment evaluation and, under \<open>--do_align\<close>, calls \<open>train\<close>.

  The script imports the class of the aligner from trainer.py under the name \<open>Aligner\<close>
  and constructs it with keyword arguments; trainer.py as it stands defines
  \<open>AlpacaAligner\<close>, whose constructor takes other arguments. What the two methods of the
  script's aligner do is therefore not taken from trainer.py: the outcome of
  \<open>aligner.prealign_eval(...)\<close> is the parameter \<open>prealign\<close> and the outcome of
  \<open>aligner.train(...)\<close> the parameter \<open>training\<close>, each either an exception or a
  result. The configuration, the model and the optimizer come from libraries; saving
  and loading them is taken not to raise.
\<close>

datatype ('p, 't) script_event =
    DirMade string
  | SkipLogged
  | DasConfigSaved string
  | ModelLoaded
  | WandbInit string
  | PrealignEvaluated 'p
  | TrainCalled 't

definition main_from_run_name ::
  "'fs os_module \<Rightarrow> 'fs \<Rightarrow> cli_args \<Rightarrow> alignment_config \<Rightarrow> py_error + 'p \<Rightarrow> py_error + 't
     \<Rightarrow> py_error + ('p, 't) script_event list" where
  "main_from_run_name os fs args alignment_config prealign training =
     (case make_dirs os fs args alignment_config of
        Inl e \<Rightarrow> Inl e
      | Inr (fs1, made) \<Rightarrow>
          (if os_path_isfile os fs1 (file_path args alignment_config)
           then Inr (map DirMade made @ [SkipLogged])
           else
             (let evs = map DirMade made @
                        [DasConfigSaved
                           (path_join (output_dir args)
                              [run_name args alignment_config, ''das_config'']),
                         ModelLoaded] @
                        (if args_is_wandb args
                         then [WandbInit (run_name args alignment_config)] else [])
              in case prealign of
                   Inl e \<Rightarrow> Inl e
                 | Inr p \<Rightarrow>
                     (if do_align args then
                        (case training of
                           Inl e \<Rightarrow> Inl e
                         | Inr t \<Rightarrow> Inr (evs @ [PrealignEvaluated p, TrainCalled t]))
                      else Inr (evs @ [PrealignEvaluated p])))))"

section \<open>tasks/continent_matching.py\<close>

definition NO_LABEL :: string where
  "NO_LABEL = ''No''"

definition YES_LABEL :: string where
  "YES_LABEL = ''Yes''"

text \<open>
  The attributes that \<open>__init__\<close> sets. A dict is an association list in insertion
  order; \<open>continent_to_country\<close> is a \<open>defaultdict(list)\<close>, whose lookup of a missing key
  gives the empty list.
\<close>

record task =
  country_to_continent :: "(string \<times> string) list"
  continent_to_country :: "(string \<times> string list) list"
  countries :: "string list"
  continents :: "string list"

definition dict_get :: "(string \<times> 'v) list \<Rightarrow> string \<Rightarrow> py_error + 'v" where
  "dict_get d k = (case map_of d k of None \<Rightarrow> Inl (KeyError k) | Some v \<Rightarrow> Inr v)"

definition defaultdict_get :: "(string \<times> 'v list) list \<Rightarrow> string \<Rightarrow> 'v list" where
  "defaultdict_get d k = (case map_of d k of None \<Rightarrow> [] | Some v \<Rightarrow> v)"

text \<open>
  \<open>random.choice\<close> draws from the generator, which is the sequence of the numbers it
  will produce and the position in it; it raises IndexError on an empty sequence.
\<close>

type_synonym generator = "(nat \<Rightarrow> nat) \<times> nat"

definition random_choice :: "generator \<Rightarrow> 'a list \<Rightarrow> py_error + 'a \<times> generator" where
  "random_choice rng xs =
     (if xs = [] then Inl IndexError
      else Inr (xs ! (fst rng (snd rng) mod length xs), (fst rng, Suc (snd rng))))"

text \<open>
  Name resolution. A name is looked up in the local variables of the running function,
  then in the globals of the module; a name bound in neither (and not a builtin) raises
  NameError. The values that matter here are strings; every other object is \<open>Object\<close>.
\<close>

datatype py_value = Str string | Object

type_synonym scope = "(string \<times> py_value) list"

definition module_globals :: scope where
  "module_globals =
     [(''Callable'', Object), (''collections'', Object), (''os'', Object), (''Path'', Object),
      (''random'', Object), (''Dataset'', Object), (''torch'', Object),
      (''DataLoader'', Object), (''TaskBase'', Object), (''_NO_LABEL'', Str NO_LABEL),
      (''_YES_LABEL'', Str YES_LABEL), (''ContinentMatchingTask'', Object)]"

definition load_name :: "scope \<Rightarrow> string \<Rightarrow> py_error + py_value" where
  "load_name locals name =
     (case map_of locals name of
        Some v \<Rightarrow> Inr v
      | None \<Rightarrow> (case map_of module_globals name of
                    Some v \<Rightarrow> Inr v
                  | None \<Rightarrow> Inl (NameError name)))"

definition as_key :: "py_value \<Rightarrow> py_error + string" where
  "as_key v = (case v of Str s \<Rightarrow> Inr s | Object \<Rightarrow> Inl TypeError)"

text \<open>
  \<^verbatim>\<open>
  def _sample_not_in_continent(self, continent):
      ret_continent = random.choice(
          [c for c in self.continents if c != continent])
      return random.choice(self.continent_to_country[ret_continent])
  \<close>
\<close>

definition sample_not_in_continent :: "task \<Rightarrow> generator \<Rightarrow> string \<Rightarrow> py_error + string \<times> generator" where
  "sample_not_in_continent self rng continent =
     (case random_choice rng (filter (\<lambda>c. c \<noteq> continent) (continents self)) of
        Inl e \<Rightarrow> Inl e
      | Inr (ret_continent, rng1) \<Rightarrow>
          random_choice rng1 (defaultdict_get (continent_to_country self) ret_continent))"

text \<open>
  \<^verbatim>\<open>
  def _are_same_continent(self, country1, country2):
      return (self.country_to_continent[country1] ==
              self.country_to_continent[countryt2])
  \<close>
  The left operand is evaluated first; the right one loads the name \<open>countryt2\<close>.
\<close>

definition are_same_continent :: "task \<Rightarrow> string \<Rightarrow> string \<Rightarrow> py_error + bool" where
  "are_same_continent self country1 country2 =
     (let locals = [(''self'', Object), (''country1'', Str country1), (''country2'', Str country2)]
      in case dict_get (country_to_continent self) country1 of
           Inl e \<Rightarrow> Inl e
         | Inr left \<Rightarrow>
             (case load_name locals ''countryt2'' of
                Inl e \<Rightarrow> Inl e
              | Inr v \<Rightarrow>
                  (case as_key v of
                     Inl e \<Rightarrow> Inl e
                   | Inr k \<Rightarrow>
                       (case dict_get (country_to_continent self) k of
                          Inl e \<Rightarrow> Inl e
                        | Inr right \<Rightarrow> Inr (left = right)))))"

text \<open>
  \<^verbatim>\<open>
  def continent1_source_sampler(self, base_country1, base_country2, ctf_label_str):
      if ctf_label_str == _YES_LABEL:
          source_country1 = random.choice(
              self.continent_to_country[base_continent2])
          source_country2 = random.choice(self.countries)
      else:
          source_country1 = self._sample_not_in_continent(base_continent2)
          source_country2 = random.choice(self.countries)
      source_label = self._are_same_continent(source_country1, source_country2)
      source_label = _YES_LABEL if source_label else _NO_LABEL
      return source_country1, source_country2, source_label
  \<close>
\<close>

definition continent1_source_sampler ::
  "task \<Rightarrow> generator \<Rightarrow> string \<Rightarrow> string \<Rightarrow> string
     \<Rightarrow> py_error + (string \<times> string \<times> string) \<times> generator" where
  "continent1_source_sampler self rng base_country1 base_country2 ctf_label_str =
     (let locals = [(''self'', Object), (''base_country1'', Str base_country1),
                    (''base_country2'', Str base_country2),
                    (''ctf_label_str'', Str ctf_label_str)];
          first =
            (if ctf_label_str = YES_LABEL then
               (case load_name locals ''base_continent2'' of
                  Inl e \<Rightarrow> Inl e
                | Inr v \<Rightarrow>
                    (case as_key v of
                       Inl e \<Rightarrow> Inl e
                     | Inr base_continent2 \<Rightarrow>
                         random_choice rng
                           (defaultdict_get (continent_to_country self) base_continent2)))
             else
               (case load_name locals ''base_continent2'' of
                  Inl e \<Rightarrow> Inl e
                | Inr v \<Rightarrow>
                    (case as_key v of
                       Inl e \<Rightarrow> Inl e
                     | Inr base_continent2 \<Rightarrow>
                         sample_not_in_continent self rng base_continent2)))
      in case first of
           Inl e \<Rightarrow> Inl e
         | Inr (source_country1, rng1) \<Rightarrow>
             (case random_choice rng1 (countries self) of
                Inl e \<Rightarrow> Inl e
              | Inr (source_country2, rng2) \<Rightarrow>
                  (case are_same_continent self source_country1 source_country2 of
                     Inl e \<Rightarrow> Inl e
                   | Inr source_label \<Rightarrow>
                       Inr ((source_country1, source_country2,
                             if source_label then YES_LABEL else NO_LABEL), rng2))))"

subsection \<open>Encoding\<close>

text \<open>
  The tokenizer is outside the repository: \<open>encode\<close> gives the token ids of a string
  with its special tokens, \<open>convert_tokens_to_ids\<close> the id of one token.
  \<open>tokenizer(s, padding='max_length', max_length=n)\<close> pads a shorter sequence to \<open>n\<close> on
  the padding side and, as no truncation is asked for, leaves a longer one as it is.
\<close>

record tokenizer =
  encode :: "string \<Rightarrow> int list"
  convert_tokens_to_ids :: "string \<Rightarrow> int"
  pad_token_id :: int
  padding_left :: bool

definition tokenizer_call :: "tokenizer \<Rightarrow> string \<Rightarrow> nat \<Rightarrow> int list" where
  "tokenizer_call tok s max_length =
     (let ids = encode tok s;
          padding = replicate (max_length - length ids) (pad_token_id tok)
      in if padding_left tok then padding @ ids else ids @ padding)"

text \<open>\<open>xs[-1] = v\<close>, which raises IndexError on an empty list.\<close>

definition set_last :: "'a list \<Rightarrow> 'a \<Rightarrow> py_error + 'a list" where
  "set_last xs v = (if xs = [] then Inl IndexError else Inr (xs[length xs - 1 := v]))"

definition encode_string :: "tokenizer \<Rightarrow> string \<Rightarrow> int list" where
  "encode_string tok s = tokenizer_call tok s 30"

definition encode_input_and_target ::
  "tokenizer \<Rightarrow> string \<Rightarrow> string \<Rightarrow> py_error + int list \<times> int list" where
  "encode_input_and_target tok input_string target_string =
     (let input_ids = tokenizer_call tok input_string 40;
          label = convert_tokens_to_ids tok target_string
      in case set_last (replicate (length input_ids) (- 100)) label of
           Inl e \<Rightarrow> Inl e
         | Inr output_ids \<Rightarrow> Inr (input_ids, output_ids))"

record example =
  inputs :: string
  targets :: string
  source_inputs :: "string option"

text \<open>The loop of \<open>_encode_examples\<close>; the accumulator holds \<open>all_input_ids\<close>,
  \<open>all_source_input_ids\<close> and \<open>all_output_ids\<close>.\<close>

fun encode_examples_loop ::
  "tokenizer \<Rightarrow> example list \<Rightarrow> int list list \<times> int list list \<times> int list list
     \<Rightarrow> py_error + int list list \<times> int list list \<times> int list list" where
  "encode_examples_loop tok [] acc = Inr acc"
| "encode_examples_loop tok (ex # rest) (all_input_ids, all_source_input_ids, all_output_ids) =
     (let all_source_input_ids1 =
            (case source_inputs ex of
               Some s \<Rightarrow> all_source_input_ids @ [encode_string tok s]
             | None \<Rightarrow> all_source_input_ids);
          input_ids = tokenizer_call tok (inputs ex) 40;
          label = convert_tokens_to_ids tok (targets ex)
      in case set_last (replicate (length input_ids) (- 100)) label of
           Inl e \<Rightarrow> Inl e
         | Inr output_ids \<Rightarrow>
             encode_examples_loop tok rest
               (all_input_ids @ [input_ids], all_source_input_ids1,
                all_output_ids @ [output_ids]))"

text \<open>The result is \<open>(all_input_ids, all_source_input_ids, all_output_ids)\<close> when some
  example had a source input and \<open>(all_input_ids, all_output_ids)\<close> otherwise.\<close>

definition encode_examples ::
  "tokenizer \<Rightarrow> example list
     \<Rightarrow> py_error + int list list \<times> int list list option \<times> int list list" where
  "encode_examples tok examples =
     (case encode_examples_loop tok examples ([], [], []) of
        Inl e \<Rightarrow> Inl e
      | Inr (all_input_ids, all_source_input_ids, all_output_ids) \<Rightarrow>
          Inr (all_input_ids,
               if all_source_input_ids \<noteq> [] then Some all_source_input_ids else None,
               all_output_ids))"

text \<open>\<open>[o[-1:] for o in output_ids]\<close> of \<open>prepare_dataloader\<close>.\<close>

definition output_only_labels :: "int list list \<Rightarrow> int list list" where
  "output_only_labels output_ids = map (\<lambda>out. drop (length out - 1) out) output_ids"

text \<open>The default prompt of \<open>_format_prompt\<close> (no \<open>custom_prompt_fn\<close>).\<close>

definition format_prompt :: "string \<Rightarrow> string \<Rightarrow> string" where
  "format_prompt country1 country2 =
     ''Answer the following yes/no question:'' @ [CHR 0x0A, CHR 0x0A] @ ''Are '' @ country1 @
     '' and '' @ country2 @ '' on the same continent?'' @ [CHR 0x0A]"

section \<open>The trace of a training run in closed form\<close>

text \<open>
  The functions of this section are not in the source. They say, step by step, which
  calls a run makes, and the lemmas further down prove that \<open>train\<close> makes exactly
  these. \<open>logs_at\<close>, \<open>evaluates_at\<close> and \<open>updates_at\<close> are the three conditions of the
  loop body as predicates of the step number.
\<close>

definition logs_at :: "train_args \<Rightarrow> nat \<Rightarrow> bool" where
  "logs_at a k = (is_master a \<and> int k mod log_step a = 0)"

definition evaluates_at :: "train_args \<Rightarrow> nat \<Rightarrow> bool" where
  "evaluates_at a k =
     (is_master a \<and> int k mod log_step a = 0 \<and> k \<noteq> 0 \<and> int k mod valid_steps a = 0)"

definition updates_at :: "train_args \<Rightarrow> nat \<Rightarrow> bool" where
  "updates_at a k =
     (int k mod gradient_accumulation_steps a = 0 \<and>
      \<not> (gradient_accumulation_steps a > 1 \<and> k = 0))"

definition dev_accuracy :: "train_args \<Rightarrow> nat \<Rightarrow> rat" where
  "dev_accuracy a k =
     (case eval_counts (dev_outputs a k) (0, 0) of
        (total_count, correct_count) \<Rightarrow> round2 a (of_nat correct_count / of_nat total_count))"

definition test_accuracy :: "train_args \<Rightarrow> rat" where
  "test_accuracy a =
     (case eval_counts (test_outputs a) (0, 0) of
        (total_count, correct_count) \<Rightarrow> round2 a (of_nat correct_count / of_nat total_count))"

text \<open>The calls of one evaluation block, of one parameter update, and of one iteration
  that starts with best accuracy \<open>b\<close> and temperature \<open>tmp\<close>.\<close>

definition eval_events :: "train_args \<Rightarrow> rat \<Rightarrow> rat \<Rightarrow> nat \<Rightarrow> event list" where
  "eval_events a b tmp k =
     [SetMode EvalMode, DevPass k EvalMode False, EvalLog k (dev_accuracy a k)] @
     (if b < dev_accuracy a k then [SaveModel best_checkpoint tmp] else []) @
     [SetMode TrainMode]"

definition update_events :: "rat list \<Rightarrow> nat \<Rightarrow> event list" where
  "update_events sched k =
     [Backward k, OptimizerStep [k], SchedulerStep, ZeroGrad, SetTemperature (sched ! k)]"

definition step_events :: "train_args \<Rightarrow> rat list \<Rightarrow> rat \<Rightarrow> rat \<Rightarrow> nat \<Rightarrow> event list" where
  "step_events a sched b tmp k =
     (if logs_at a k then
        TrainLog k # (if evaluates_at a k then eval_events a b tmp k else [])
      else []) @
     (if updates_at a k then update_events sched k else [])"

definition next_best :: "train_args \<Rightarrow> rat \<Rightarrow> nat \<Rightarrow> rat" where
  "next_best a b k = (if evaluates_at a k then max b (dev_accuracy a k) else b)"

definition next_temperature :: "train_args \<Rightarrow> rat list \<Rightarrow> rat \<Rightarrow> nat \<Rightarrow> rat" where
  "next_temperature a sched tmp k = (if updates_at a k then sched ! k else tmp)"

fun run_events :: "train_args \<Rightarrow> rat list \<Rightarrow> rat \<Rightarrow> rat \<Rightarrow> nat \<Rightarrow> nat \<Rightarrow> event list" where
  "run_events a sched b tmp k 0 = []"
| "run_events a sched b tmp k (Suc n) =
     step_events a sched b tmp k @
     run_events a sched (next_best a b k) (next_temperature a sched tmp k) (Suc k) n"

fun run_temperature :: "train_args \<Rightarrow> rat list \<Rightarrow> rat \<Rightarrow> nat \<Rightarrow> nat \<Rightarrow> rat" where
  "run_temperature a sched tmp k 0 = tmp"
| "run_temperature a sched tmp k (Suc n) =
     run_temperature a sched (next_temperature a sched tmp k) (Suc k) n"

definition final_events :: "train_args \<Rightarrow> rat \<Rightarrow> nat \<Rightarrow> event list" where
  "final_events a tmp k =
     (if is_master a
      then [SetMode EvalMode, TestPass k EvalMode False, TestLog k (test_accuracy a),
            SaveModel last_checkpoint tmp]
      else [])"

definition steps_of :: "train_args \<Rightarrow> nat" where
  "steps_of a = nat (target_total_step a)"

definition schedule_of :: "train_args \<Rightarrow> rat list" where
  "schedule_of a =
     map to_bfloat16 (map to_float32 (linspace temperature_start temperature_end (steps_of a)))"


fun best_seen_from :: "rat \<Rightarrow> event list \<Rightarrow> rat" where
  "best_seen_from b [] = b"
| "best_seen_from b (EvalLog k acc # es) = best_seen_from (max b acc) es"
| "best_seen_from b (e # es) = best_seen_from b es"

definition best_seen :: "event list \<Rightarrow> rat" where
  "best_seen es = best_seen_from (- 1) es"

definition no_eval_log :: "event list \<Rightarrow> bool" where
  "no_eval_log es = (\<forall>k acc. EvalLog k acc \<notin> set es)"

definition best_rule :: "event list \<Rightarrow> rat \<Rightarrow> event list \<Rightarrow> bool" where
  "best_rule pre acc post =
     (if best_seen pre < acc
      then (\<exists>t post'. post = SaveModel best_checkpoint t # SetMode TrainMode # post')
      else (\<exists>post'. post = SetMode TrainMode # post'))"

text \<open>A dataset on which the accuracy can be computed: the loop counts at least one
  example.\<close>

definition evaluable :: "decoded_batch list \<Rightarrow> bool" where
  "evaluable batches = (fst (eval_counts batches (0, 0)) \<noteq> 0)"

section \<open>Accuracy as a function of the evaluated examples\<close>

text \<open>The examples of a decoded batch, and what the loops of \<open>prealign_eval\<close> and
  \<open>compute_metrics\<close> test on one example.\<close>

definition batch_pairs :: "decoded_batch \<Rightarrow> (string \<times> string) list" where
  "batch_pairs b = zip (fst b) (snd b)"

definition pair_match :: "string \<times> string \<Rightarrow> bool" where
  "pair_match tp = (lower (fst tp) = lower (snd tp))"

definition argmax_ix :: "'a::linorder list \<Rightarrow> nat" where
  "argmax_ix xs = argmax_from 0 (hd xs) 1 (tl xs)"

definition row_ok :: "'a list list \<times> int list \<Rightarrow> bool" where
  "row_ok r = (snd r \<noteq> [] \<and> fst r \<noteq> [] \<and> last (fst r) \<noteq> [])"

definition row_correct :: "'a::linorder list list \<times> int list \<Rightarrow> bool" where
  "row_correct r = (last (snd r) = int (argmax_ix (last (fst r))))"

text \<open>The labels that the encoding gives an example: \<open>-100\<close> everywhere but at the last
  position, which holds the id of the target token.\<close>

definition labels_for :: "tokenizer \<Rightarrow> string \<Rightarrow> string \<Rightarrow> int list" where
  "labels_for tok input_string target_string =
     replicate (length (tokenizer_call tok input_string 40) - 1) (- 100) @
     [convert_tokens_to_ids tok target_string]"

section \<open>Concrete inputs\<close>

text \<open>
  A run of four batches in one epoch with the default \<open>log_step\<close> and \<open>valid_steps\<close> of
  the command line, on the master process with wandb in use, and variants of it. The
  rounding is the identity. The dev set has two examples, of which the model gets one
  right, and both at step 3.
\<close>

definition default_run :: train_args where
  "default_run =
     \<lparr>is_master = True, is_wandb = True, round2 = (\<lambda>q. q), train_batches = 4,
      dev_outputs = (\<lambda>k. if k = 3 then [([''Yes'', ''No''], [''yes'', ''no''])]
                          else [([''Yes'', ''No''], [''yes'', ''yes''])]),
      test_outputs = [([''Yes''], [''No''])],
      log_step = 10, valid_steps = 500, epochs = 1, gradient_accumulation_steps = 1\<rparr>"

definition accumulate_run :: train_args where
  "accumulate_run = default_run\<lparr>gradient_accumulation_steps := 2\<rparr>"

definition sparse_log_run :: train_args where
  "sparse_log_run = default_run\<lparr>log_step := 2, valid_steps := 3\<rparr>"

definition dense_eval_run :: train_args where
  "dense_eval_run = default_run\<lparr>log_step := 1, valid_steps := 1\<rparr>"

text \<open>The defaults of the command line, with an output directory.\<close>

definition default_args :: cli_args where
  "default_args =
     \<lparr>model_path = ''../alpaca_7b/'', model_type = ''llama'', task_name = ''price_tagging_lb'',
      seed = 42, output_dir = ''out'', layer = - 1, token_start = - 1, token_end = - 1,
      do_align = False, lr = 1 / 100, warm_up = 1 / 10, train_batch_size = 128,
      eval_batch_size = 128, n_training_examples = 10000, n_eval_examples = 1000,
      bf16 = False, args_is_wandb = False\<rparr>"

definition other_args :: cli_args where
  "other_args =
     default_args\<lparr>model_path := ''/models/./alpaca_7b'', output_dir := ''/tmp/runs'',
       layer := 15, do_align := True, lr := 5, train_batch_size := 8, bf16 := True\<rparr>"

definition default_alignment_config :: alignment_config where
  "default_alignment_config = \<lparr>config_layer = 15, config_token_range = (80, 81)\<rparr>"

text \<open>A file system given by the lists of its directories and of its regular files, in
  which \<open>os.mkdir\<close> raises only when the path exists; the empty one; and the one that
  holds the last checkpoint of the run of the default arguments.\<close>

definition list_os :: "(string list \<times> string list) os_module" where
  "list_os =
     \<lparr>os_path_exists = (\<lambda>fs p. p \<in> set (fst fs) \<or> p \<in> set (snd fs)),
      os_path_isfile = (\<lambda>fs p. p \<in> set (snd fs)),
      os_mkdir = (\<lambda>fs p. if p \<in> set (fst fs) \<or> p \<in> set (snd fs) then Inl OSError
                          else Inr (fst fs @ [p], snd fs))\<rparr>"

definition no_files :: "string list \<times> string list" where
  "no_files = ([], [])"

definition finished_run :: "string list \<times> string list" where
  "finished_run =
     ([''out'', ''out/model:alpaca_7b_task:price_tagging_lb_seed:42_intl:15_intr:80,81''],
      [''out/model:alpaca_7b_task:price_tagging_lb_seed:42_intl:15_intr:80,81/pytorch-rotate-last.bin''])"

text \<open>A tokenizer with one token per character and an end token, padding on the left.\<close>

definition char_tokenizer :: tokenizer where
  "char_tokenizer =
     \<lparr>encode = (\<lambda>s. map (\<lambda>c. int (of_char c) + 3) s @ [1]),
      convert_tokens_to_ids = (\<lambda>t. if t = ''Yes'' then 260 else if t = ''No'' then 261 else 2),
      pad_token_id = 0, padding_left = True\<rparr>"

text \<open>A map of three countries.\<close>

definition three_countries :: task where
  "three_countries =
     \<lparr>country_to_continent =
        [(''Peru'', ''South America''), (''Chile'', ''South America''), (''Kenya'', ''Africa'')],
      continent_to_country =
        [(''South America'', [''Peru'', ''Chile'']), (''Africa'', [''Kenya''])],
      countries = [''Peru'', ''Chile'', ''Kenya''],
      continents = [''South America'', ''Africa'']\<rparr>"

section \<open>Lemmas: counting is a function of the multiset of examples\<close>

lemma correct_labels_pairs:
  "correct_labels t p = map pair_match (zip t p)"
  by (simp add: correct_labels_def pair_match_def case_prod_beta)

lemma tensor_sum_map:
  "tensor_sum (map P xs) = length (filter P xs)"
  by (induction xs) (simp_all add: tensor_sum_def)

lemma eval_counts_closed:
  "eval_counts bs (t, c) =
     (t + length (concat (map batch_pairs bs)),
      c + length (filter pair_match (concat (map batch_pairs bs))))"
proof (induction bs arbitrary: t c)
  case Nil
  show ?case by simp
next
  case (Cons b bs)
  obtain tg pr where b: "b = (tg, pr)" by (cases b)
  show ?case
    by (simp add: b Cons.IH correct_labels_pairs tensor_sum_map batch_pairs_def)
qed

lemma length_filter_mset:
  "mset xs = mset ys \<Longrightarrow> length (filter P xs) = length (filter P ys)"
  by (metis mset_filter size_mset)

lemma prealign_eval_perm:
  assumes "mset (concat (map batch_pairs bs)) = mset (concat (map batch_pairs bs'))"
  shows "prealign_eval rnd bs = prealign_eval rnd bs'"
proof -
  have "length (concat (map batch_pairs bs)) = length (concat (map batch_pairs bs'))"
    using assms by (metis size_mset)
  moreover have "length (filter pair_match (concat (map batch_pairs bs)))
      = length (filter pair_match (concat (map batch_pairs bs')))"
    using assms by (rule length_filter_mset)
  ultimately show ?thesis
    by (simp add: prealign_eval_def eval_counts_closed)
qed

lemma argmax_rows_closed:
  "argmax_rows rs = (if [] \<in> set rs then Inl IndexError else Inr (map argmax_ix rs))"
  by (induction rs) (auto simp: argmax_def argmax_ix_def split: list.splits)

lemma batch_correct_labels_closed:
  "batch_correct_labels (map fst b) (map snd b) =
     (if list_all row_ok b then Inr (map row_correct b) else Inl IndexError)"
proof (cases "list_all row_ok b")
  case True
  then have ok: "\<And>r. r \<in> set b \<Longrightarrow> snd r \<noteq> [] \<and> fst r \<noteq> [] \<and> last (fst r) \<noteq> []"
    by (simp add: list_all_iff row_ok_def)
  have 1: "[] \<notin> set (map snd b)" using ok by fastforce
  have 2: "[] \<notin> set (map fst b)" using ok by fastforce
  have 3: "[] \<notin> set (map last (map fst b))" using ok by fastforce
  have 4: "map (\<lambda>(x, y). x = y)
              (zip (map last (map snd b)) (map int (map argmax_ix (map last (map fst b)))))
           = map row_correct b"
    by (induction b) (simp_all add: row_correct_def)
  show ?thesis
    using True 1 2 3 4
    by (simp add: batch_correct_labels_def last_column_def argmax_rows_closed tensor_eq_def)
next
  case False
  then obtain r where r: "r \<in> set b" "\<not> row_ok r"
    by (auto simp: list_all_iff)
  then have "[] \<in> set (map snd b) \<or> [] \<in> set (map fst b) \<or> [] \<in> set (map last (map fst b))"
    by (force simp: row_ok_def)
  then show ?thesis
    using False
    by (auto simp: batch_correct_labels_def last_column_def argmax_rows_closed)
qed

lemma metrics_counts_closed:
  "metrics_counts (zip (map (map fst) pbs) (map (map snd) pbs)) (t, c) =
     (if list_all row_ok (concat pbs)
      then Inr (t + length (concat pbs), c + length (filter row_correct (concat pbs)))
      else Inl IndexError)"
proof (induction pbs arbitrary: t c)
  case Nil
  show ?case by simp
next
  case (Cons b pbs)
  show ?case
    by (simp add: batch_correct_labels_closed Cons.IH tensor_sum_map)
qed

lemma compute_metrics_perm:
  assumes "mset (concat pbs) = mset (concat pbs')"
  shows "compute_metrics rnd (map (map fst) pbs) (map (map snd) pbs)
       = compute_metrics rnd (map (map fst) pbs') (map (map snd) pbs')"
proof -
  have "set (concat pbs) = set (concat pbs')"
    using assms by (metis set_mset_mset)
  then have "list_all row_ok (concat pbs) = list_all row_ok (concat pbs')"
    unfolding list_all_iff by simp
  moreover have "length (concat pbs) = length (concat pbs')"
    using assms by (metis size_mset)
  moreover have "length (filter row_correct (concat pbs)) = length (filter row_correct (concat pbs'))"
    using assms by (rule length_filter_mset)
  ultimately show ?thesis
    unfolding compute_metrics_def metrics_counts_closed by simp
qed

section \<open>Lemmas: what one iteration of the training loop does\<close>

lemma emit_simps [simp]:
  "events (emit es s) = events s @ es"
  "mode (emit es s) = mode s"
  "temperature (emit es s) = temperature s"
  "total_step (emit es s) = total_step s"
  "best_eval_acc (emit es s) = best_eval_acc s"
  "grads (emit es s) = grads s"
  by (simp_all add: emit_def)

lemma set_mode_simps [simp]:
  "events (set_mode m s) = events s @ [SetMode m]"
  "mode (set_mode m s) = m"
  "temperature (set_mode m s) = temperature s"
  "total_step (set_mode m s) = total_step s"
  "best_eval_acc (set_mode m s) = best_eval_acc s"
  "grads (set_mode m s) = grads s"
  by (simp_all add: set_mode_def)

lemma save_model_simps [simp]:
  "events (save_model f s) = events s @ [SaveModel f (temperature s)]"
  "mode (save_model f s) = mode s"
  "temperature (save_model f s) = temperature s"
  "total_step (save_model f s) = total_step s"
  "best_eval_acc (save_model f s) = best_eval_acc s"
  "grads (save_model f s) = grads s"
  by (simp_all add: save_model_def)

lemma periodic_eval_Inr:
  assumes "periodic_eval a s = Inr s'" and "is_master a"
  shows "events s' = events s @ eval_events a (best_eval_acc s) (temperature s) (total_step s)"
    and "total_step s' = total_step s"
    and "grads s' = grads s"
    and "temperature s' = temperature s"
    and "mode s' = TrainMode"
    and "best_eval_acc s' = max (best_eval_acc s) (dev_accuracy a (total_step s))"
  using assms
  by (auto simp: periodic_eval_def accuracy_def eval_events_def dev_accuracy_def Let_def
           split: prod.splits if_splits)


lemma log_due_Inr: "log_due a k = Inr b \<Longrightarrow> b = logs_at a k"
  by (auto simp: log_due_def logs_at_def py_mod_def split: if_splits)

lemma valid_due_Inr: "valid_due a k = Inr b \<Longrightarrow> b = (k \<noteq> 0 \<and> int k mod valid_steps a = 0)"
  by (auto simp: valid_due_def py_mod_def split: if_splits)

lemma update_due_Inr: "update_due a k = Inr b \<Longrightarrow> b = updates_at a k"
  by (auto simp: update_due_def updates_at_def py_mod_def split: if_splits)

lemma log_phase_Inr:
  assumes "log_phase a s = Inr s'"
  shows "events s' = events s @
           (if logs_at a (total_step s) then
              TrainLog (total_step s) #
              (if evaluates_at a (total_step s)
               then eval_events a (best_eval_acc s) (temperature s) (total_step s) else [])
            else []) \<and>
      total_step s' = total_step s \<and> grads s' = grads s \<and> temperature s' = temperature s \<and>
      mode s' = (if evaluates_at a (total_step s) then TrainMode else mode s) \<and>
      best_eval_acc s' = next_best a (best_eval_acc s) (total_step s)"
proof -
  obtain b where b: "log_due a (total_step s) = Inr b"
    using assms by (auto simp: log_phase_def split: sum.splits)
  then have bl: "b = logs_at a (total_step s)" by (rule log_due_Inr)
  show ?thesis
  proof (cases b)
    case False
    then have "s' = s" using assms b by (simp add: log_phase_def)
    moreover have "\<not> logs_at a (total_step s)" using False bl by simp
    moreover then have "\<not> evaluates_at a (total_step s)"
      by (auto simp: logs_at_def evaluates_at_def)
    ultimately show ?thesis
      by (simp add: next_best_def)
  next
    case True
    then have l: "logs_at a (total_step s)" using bl by simp
    then have m: "is_master a" by (simp add: logs_at_def)
    obtain v where v: "valid_due a (total_step s) = Inr v"
      using assms b True by (auto simp: log_phase_def Let_def split: sum.splits)
    then have vl: "v = (total_step s \<noteq> 0 \<and> int (total_step s) mod valid_steps a = 0)"
      by (rule valid_due_Inr)
    then have ve: "v = evaluates_at a (total_step s)"
      using l by (auto simp: logs_at_def evaluates_at_def)
    show ?thesis
    proof (cases v)
      case False
      then have "s' = (emit [TrainLog (total_step s)] s)
                  \<lparr>total_log_step := total_log_step (emit [TrainLog (total_step s)] s) + 1\<rparr>"
        using assms b True v by (simp add: log_phase_def Let_def)
      then show ?thesis using False ve l by (simp add: next_best_def)
    next
      case vT: True
      then obtain s2 where s2: "periodic_eval a (emit [TrainLog (total_step s)] s) = Inr s2"
        and s': "s' = s2\<lparr>total_log_step := total_log_step s2 + 1\<rparr>"
        using assms b True v by (auto simp: log_phase_def Let_def split: sum.splits)
      show ?thesis
        using periodic_eval_Inr[OF s2 m] vT ve l s'
        by (simp add: next_best_def)
    qed
  qed
qed

lemma update_phase_Inr:
  assumes "update_phase a sched s = Inr s'" and "grads s = []"
  shows "events s' = events s @
           (if updates_at a (total_step s) then update_events sched (total_step s) else []) \<and>
     total_step s' = Suc (total_step s) \<and> grads s' = [] \<and>
     temperature s' = next_temperature a sched (temperature s) (total_step s) \<and>
     mode s' = mode s \<and> best_eval_acc s' = best_eval_acc s \<and>
     (updates_at a (total_step s) \<longrightarrow> total_step s < length sched)"
proof -
  obtain b where b: "update_due a (total_step s) = Inr b"
    using assms by (auto simp: update_phase_def split: sum.splits)
  then have bu: "b = updates_at a (total_step s)" by (rule update_due_Inr)
  show ?thesis
    using assms b bu
    by (auto simp: update_phase_def optimizer_update_def schedule_at_def update_events_def
          next_temperature_def Let_def split: sum.splits bool.splits if_splits)
qed

lemma update_phase_wandb:
  assumes "update_phase a sched s = Inr s'" and "updates_at a (total_step s)"
  shows "wandb_initialized a"
proof -
  obtain b where b: "update_due a (total_step s) = Inr b"
    using assms by (auto simp: update_phase_def split: sum.splits)
  then have bu: "b = updates_at a (total_step s)" by (rule update_due_Inr)
  show ?thesis
    using assms b bu
    by (auto simp: update_phase_def optimizer_update_def Let_def
          split: sum.splits bool.splits if_splits)
qed

lemma train_step_Inr:
  assumes "train_step a sched s = Inr s'" and "grads s = []"
  shows "events s' = events s @
           step_events a sched (best_eval_acc s) (temperature s) (total_step s) \<and>
     total_step s' = Suc (total_step s) \<and> grads s' = [] \<and>
     temperature s' = next_temperature a sched (temperature s) (total_step s) \<and>
     mode s' = (if evaluates_at a (total_step s) then TrainMode else mode s) \<and>
     best_eval_acc s' = next_best a (best_eval_acc s) (total_step s) \<and>
     (updates_at a (total_step s) \<longrightarrow> total_step s < length sched)"
proof -
  obtain s1 where 1: "log_phase a s = Inr s1" and 2: "update_phase a sched s1 = Inr s'"
    using assms by (auto simp: train_step_def split: sum.splits)
  note L = log_phase_Inr[OF 1]
  have g: "grads s1 = []" using L assms(2) by simp
  note U = update_phase_Inr[OF 2 g]
  show ?thesis
    using L U by (simp add: step_events_def)
qed

lemma batch_loop_Inr:
  assumes "batch_loop a sched n s = Inr s'" and "grads s = []"
  shows "events s' = events s @
           run_events a sched (best_eval_acc s) (temperature s) (total_step s) n
         \<and> total_step s' = total_step s + n
         \<and> grads s' = []
         \<and> (\<forall>k. total_step s \<le> k \<and> k < total_step s + n \<and> updates_at a k \<longrightarrow> k < length sched)"
  using assms
proof (induction n arbitrary: s)
  case 0
  then show ?case by simp
next
  case (Suc n)
  then obtain s1 where 1: "train_step a sched s = Inr s1"
    and 2: "batch_loop a sched n s1 = Inr s'"
    by (auto split: sum.splits)
  note S = train_step_Inr[OF 1 Suc.prems(2)]
  have g1: "grads s1 = []" using S by simp
  have IH: "events s' = events s1 @
           run_events a sched (best_eval_acc s1) (temperature s1) (total_step s1) n
         \<and> total_step s' = total_step s1 + n
         \<and> grads s' = []
         \<and> (\<forall>k. total_step s1 \<le> k \<and> k < total_step s1 + n \<and> updates_at a k \<longrightarrow> k < length sched)"
    using Suc.IH[OF 2 g1] .
  have "\<forall>k. total_step s \<le> k \<and> k < total_step s + Suc n \<and> updates_at a k \<longrightarrow> k < length sched"
  proof (intro allI impI)
    fix k assume k: "total_step s \<le> k \<and> k < total_step s + Suc n \<and> updates_at a k"
    show "k < length sched"
    proof (cases "k = total_step s")
      case True
      then show ?thesis using S k by simp
    next
      case False
      then show ?thesis using IH k S by simp
    qed
  qed
  then show ?case
    using IH S by simp
qed

lemma batch_loop_add:
  "batch_loop a sched (i + j) s =
     (case batch_loop a sched i s of Inl e \<Rightarrow> Inl e | Inr s1 \<Rightarrow> batch_loop a sched j s1)"
  by (induction i arbitrary: s) (simp_all split: sum.splits)

lemma epoch_loop_flat:
  "epoch_loop a sched m s = batch_loop a sched (m * train_batches a) s"
  by (induction m arbitrary: s) (simp_all add: batch_loop_add split: sum.splits)

section \<open>Lemmas: the trace of a completed run\<close>

lemma batch_loop_temperature:
  assumes "batch_loop a sched n s = Inr s'" and "grads s = []"
  shows "temperature s' = run_temperature a sched (temperature s) (total_step s) n"
  using assms
proof (induction n arbitrary: s)
  case 0
  then show ?case by simp
next
  case (Suc n)
  then obtain s1 where 1: "train_step a sched s = Inr s1"
    and 2: "batch_loop a sched n s1 = Inr s'"
    by (auto split: sum.splits)
  note S = train_step_Inr[OF 1 Suc.prems(2)]
  have g1: "grads s1 = []" using S by simp
  show ?case using Suc.IH[OF 2 g1] S by simp
qed

lemma final_eval_Inr:
  assumes "final_eval a s = Inr s'"
  shows "events (final_save a s') = events s @ final_events a (temperature s) (total_step s) \<and>
         temperature (final_save a s') = temperature s"
  using assms
  by (auto simp: final_eval_def final_save_def final_events_def test_accuracy_def accuracy_def
        Let_def split: if_splits prod.splits)

lemma length_linspace [simp]: "length (linspace x y n) = n"
  by (simp add: linspace_def)

lemma length_schedule_of [simp]: "length (schedule_of a) = steps_of a"
  by (simp add: schedule_of_def)


lemma train_Inr:
  assumes "train a = Inr s"
  shows "0 < steps_of a \<and>
     events s = [SetMode TrainMode, SetTemperature (schedule_of a ! 0)] @
       run_events a (schedule_of a) (- 1) (schedule_of a ! 0) 0 (steps_of a) @
       final_events a (temperature s) (steps_of a) \<and>
     temperature s = run_temperature a (schedule_of a) (schedule_of a ! 0) 0 (steps_of a) \<and>
     (\<forall>k. k < steps_of a \<and> updates_at a k \<longrightarrow> k < length (schedule_of a))"
proof -
  have nonneg: "\<not> target_total_step a < 0"
    using assms by (auto simp: train_def temperature_schedule_def split: if_splits)
  then have sched: "temperature_schedule a = Inr (schedule_of a)"
    by (simp add: temperature_schedule_def schedule_of_def steps_of_def)
  have at0: "schedule_at (schedule_of a) 0 = Inr (schedule_of a ! 0)" and pos: "0 < steps_of a"
    using assms sched by (auto simp: train_def schedule_at_def split: if_splits)
  obtain s1 s2 where loop: "epoch_loop a (schedule_of a) (nat (epochs a))
        (initial_trainer (schedule_of a ! 0)) = Inr s1"
    and fin: "final_eval a s1 = Inr s2" and s: "s = final_save a s2"
    using assms sched at0 by (auto simp: train_def split: sum.splits)
  have "0 < target_total_step a" using pos by (simp add: steps_of_def)
  then have "0 < epochs a"
    by (simp add: target_total_step_def zero_less_mult_iff)
  then have "nat (epochs a) * train_batches a = steps_of a"
    by (simp add: steps_of_def target_total_step_def nat_mult_distrib mult.commute)
  then have flat: "batch_loop a (schedule_of a) (steps_of a)
        (initial_trainer (schedule_of a ! 0)) = Inr s1"
    using loop by (simp add: epoch_loop_flat)
  have g0: "grads (initial_trainer (schedule_of a ! 0)) = []"
    by (simp add: initial_trainer_def)
  note B = batch_loop_Inr[OF flat g0]
  note T = batch_loop_temperature[OF flat g0]
  note F = final_eval_Inr[OF fin]
  show ?thesis
    using B T F pos s by (simp add: initial_trainer_def)
qed

section \<open>Lemmas: temperatures\<close>








lemma linspace_first: "0 < n \<Longrightarrow> linspace x y n ! 0 = x"
  by (simp add: linspace_def)




section \<open>Lemmas: rounding to a binary floating-point format is monotone\<close>













section \<open>Lemmas: evaluation passes, checkpoints and optimizer steps\<close>

lemma DevPass_step_events:
  "DevPass j m g \<in> set (step_events a sched b tmp k) \<longleftrightarrow>
     (j = k \<and> evaluates_at a k \<and> m = EvalMode \<and> \<not> g)"
  by (auto simp: step_events_def eval_events_def update_events_def evaluates_at_def logs_at_def)

lemma DevPass_run_events:
  "DevPass j m g \<in> set (run_events a sched b tmp k n) \<longleftrightarrow>
     (k \<le> j \<and> j < k + n \<and> evaluates_at a j \<and> m = EvalMode \<and> \<not> g)"
proof (induction n arbitrary: b tmp k)
  case 0
  show ?case by simp
next
  case (Suc n)
  show ?case
    unfolding run_events.simps set_append Un_iff DevPass_step_events Suc.IH
    by (cases "j = k") auto
qed

lemma DevPass_final_events: "DevPass j m g \<notin> set (final_events a tmp k)"
  by (simp add: final_events_def)

lemma best_seen_from_append:
  "best_seen_from b (xs @ ys) = best_seen_from (best_seen_from b xs) ys"
  by (induction b xs rule: best_seen_from.induct) simp_all

lemma best_seen_from_no_eval_log:
  "no_eval_log es \<Longrightarrow> best_seen_from b es = b"
  by (induction b es rule: best_seen_from.induct) (auto simp: no_eval_log_def)

lemma split_no_eval_log:
  assumes "no_eval_log c" and "c @ r = pre @ EvalLog j acc # post"
  shows "\<exists>p. pre = c @ p \<and> r = p @ EvalLog j acc # post"
  using assms
proof (induction c arbitrary: pre)
  case Nil
  then show ?case by simp
next
  case (Cons x c)
  have nx: "x \<noteq> EvalLog j acc" and nc: "no_eval_log c"
    using Cons.prems(1) by (auto simp: no_eval_log_def)
  obtain pre' where pre: "pre = x # pre'" and rest: "c @ r = pre' @ EvalLog j acc # post"
    using Cons.prems(2) nx by (cases pre) auto
  from Cons.IH[OF nc rest] show ?case using pre by auto
qed

lemma no_eval_log_simps [simp]:
  "no_eval_log []"
  "no_eval_log (xs @ ys) = (no_eval_log xs \<and> no_eval_log ys)"
  "no_eval_log (e # es) = ((\<forall>k acc. e \<noteq> EvalLog k acc) \<and> no_eval_log es)"
  by (auto simp: no_eval_log_def)

lemma no_eval_log_update_events [simp]: "no_eval_log (update_events sched k)"
  by (simp add: update_events_def)

lemma no_eval_log_final_events [simp]: "no_eval_log (final_events a tmp k)"
  by (simp add: final_events_def)

lemma best_rule_run_events:
  assumes "best_seen E = b"
    and "run_events a sched b tmp k n @ F = pre @ EvalLog j acc # post"
    and "no_eval_log F"
  shows "best_rule (E @ pre) acc post"
  using assms
proof (induction n arbitrary: E b tmp k pre)
  case 0
  then have "F = pre @ EvalLog j acc # post" by simp
  then have "EvalLog j acc \<in> set F" by simp
  then show ?case using "0.prems"(3) by (simp add: no_eval_log_def)
next
  case (Suc n)
  let ?rest = "run_events a sched (next_best a b k) (next_temperature a sched tmp k) (Suc k) n"
  let ?upd = "if updates_at a k then update_events sched k else []"
  have nu: "no_eval_log ?upd" by simp
  show ?case
  proof (cases "evaluates_at a k")
    case False
    let ?chunk = "(if logs_at a k then [TrainLog k] else []) @ ?upd"
    have chunk: "step_events a sched b tmp k = ?chunk"
      using False by (simp add: step_events_def)
    have nc: "no_eval_log ?chunk" by simp
    have "?chunk @ (?rest @ F) = pre @ EvalLog j acc # post"
      using Suc.prems(2) chunk by simp
    from split_no_eval_log[OF nc this]
    obtain p where p: "pre = ?chunk @ p" and r: "?rest @ F = p @ EvalLog j acc # post"
      by blast
    have "best_seen (E @ ?chunk) = next_best a b k"
      using Suc.prems(1) False nc
      by (simp add: best_seen_def best_seen_from_append best_seen_from_no_eval_log next_best_def)
    from Suc.IH[OF this r Suc.prems(3)] show ?thesis
      using p by simp
  next
    case True
    let ?c1 = "[TrainLog k, SetMode EvalMode, DevPass k EvalMode False]"
    let ?acc = "dev_accuracy a k"
    let ?c2 = "(if b < ?acc then [SaveModel best_checkpoint tmp] else []) @ [SetMode TrainMode] @ ?upd"
    have l: "logs_at a k" using True by (simp add: evaluates_at_def logs_at_def)
    have chunk: "step_events a sched b tmp k = ?c1 @ EvalLog k ?acc # ?c2"
      using True l by (simp add: step_events_def eval_events_def)
    have n1: "no_eval_log ?c1" by simp
    have n2: "no_eval_log ?c2" by simp
    have eq: "?c1 @ (EvalLog k ?acc # ?c2 @ ?rest @ F) = pre @ EvalLog j acc # post"
      using Suc.prems(2) chunk by simp
    from split_no_eval_log[OF n1 eq]
    obtain p where p: "pre = ?c1 @ p"
      and r: "EvalLog k ?acc # ?c2 @ ?rest @ F = p @ EvalLog j acc # post"
      by blast
    show ?thesis
    proof (cases p)
      case Nil
      then have same: "acc = ?acc" and post: "post = ?c2 @ ?rest @ F"
        using r by auto
      have "best_seen (E @ pre) = b"
        using Suc.prems(1) p Nil
        by (simp add: best_seen_def best_seen_from_append)
      then show ?thesis
        using same post by (simp add: best_rule_def)
    next
      case (Cons x p')
      then have r': "?c2 @ (?rest @ F) = p' @ EvalLog j acc # post" and x: "x = EvalLog k ?acc"
        using r by simp_all
      from split_no_eval_log[OF n2 r']
      obtain q where q: "p' = ?c2 @ q" and rq: "?rest @ F = q @ EvalLog j acc # post"
        by blast
      have "best_seen (E @ ?c1 @ EvalLog k ?acc # ?c2) = next_best a b k"
        using Suc.prems(1) True
        by (simp add: best_seen_def best_seen_from_append best_seen_from_no_eval_log
              next_best_def)
      from Suc.IH[OF this rq Suc.prems(3)] show ?thesis
        using p Cons x q by simp
    qed
  qed
qed

lemma OptimizerStep_run_events:
  "OptimizerStep g \<in> set (run_events a sched b tmp k n) \<longleftrightarrow>
     (\<exists>j. k \<le> j \<and> j < k + n \<and> updates_at a j \<and> g = [j])"
proof (induction n arbitrary: b tmp k)
  case 0
  show ?case by simp
next
  case (Suc n)
  have step: "OptimizerStep g \<in> set (step_events a sched b tmp k) \<longleftrightarrow> (updates_at a k \<and> g = [k])"
    by (auto simp: step_events_def eval_events_def update_events_def)
  show ?case
    unfolding run_events.simps set_append Un_iff step Suc.IH
    by (auto simp: Suc_le_eq le_less)
qed

lemma Backward_run_events:
  "Backward j \<in> set (run_events a sched b tmp k n) \<longleftrightarrow>
     (k \<le> j \<and> j < k + n \<and> updates_at a j)"
proof (induction n arbitrary: b tmp k)
  case 0
  show ?case by simp
next
  case (Suc n)
  have step: "Backward j \<in> set (step_events a sched b tmp k) \<longleftrightarrow> (updates_at a k \<and> j = k)"
    by (auto simp: step_events_def eval_events_def update_events_def)
  show ?case
    unfolding run_events.simps set_append Un_iff step Suc.IH
    by (cases "j = k") auto
qed

section \<open>Lemmas: unbound names\<close>

lemma load_name_base_continent2:
  "load_name [(''self'', Object), (''base_country1'', Str base_country1),
              (''base_country2'', Str base_country2), (''ctf_label_str'', Str ctf_label_str)]
     ''base_continent2'' = Inl (NameError ''base_continent2'')"
  by (simp add: load_name_def module_globals_def)

lemma load_name_countryt2:
  "load_name [(''self'', Object), (''country1'', Str country1), (''country2'', Str country2)]
     ''countryt2'' = Inl (NameError ''countryt2'')"
  by (simp add: load_name_def module_globals_def)

section \<open>Lemmas: encoding\<close>

lemma length_tokenizer_call:
  "length (tokenizer_call tok s n) = max n (length (encode tok s))"
  by (auto simp: tokenizer_call_def Let_def max_def)

lemma set_last_replicate:
  "0 < n \<Longrightarrow> set_last (replicate n x) v = Inr (replicate (n - 1) x @ [v])"
proof -
  assume "0 < n"
  then obtain m where m: "n = Suc m" by (cases n) auto
  have "(replicate m x @ [x])[m := v] = replicate m x @ [v]"
    by (metis length_replicate list_update_length)
  then show ?thesis
    by (simp add: set_last_def m replicate_append_same)
qed

lemma set_last_labels:
  "set_last (replicate (length (tokenizer_call tok s 40)) (- 100)) (convert_tokens_to_ids tok t)
     = Inr (labels_for tok s t)"
  unfolding labels_for_def
  by (rule set_last_replicate) (simp add: length_tokenizer_call)

lemma encode_examples_loop_closed:
  "\<exists>srcs. encode_examples_loop tok examples (a1, a2, a3) =
     Inr (a1 @ map (\<lambda>ex. tokenizer_call tok (inputs ex) 40) examples, srcs,
          a3 @ map (\<lambda>ex. labels_for tok (inputs ex) (targets ex)) examples)"
proof (induction examples arbitrary: a1 a2 a3)
  case Nil
  show ?case by simp
next
  case (Cons ex rest)
  show ?case
    using Cons.IH
      [of "a1 @ [tokenizer_call tok (inputs ex) 40]"
          "case source_inputs ex of Some s \<Rightarrow> a2 @ [encode_string tok s] | None \<Rightarrow> a2"
          "a3 @ [labels_for tok (inputs ex) (targets ex)]"]
    by (simp add: Let_def set_last_labels)
qed

section \<open>Lemmas: a run with data to evaluate on completes\<close>

text \<open>
  The statements about a run are about a run that returns. On the master process with
  wandb in use, \<open>train\<close> returns whenever there is at least one batch and one epoch, the
  three step arguments are not zero, and the dev and test sets have at least one
  example. In a process where \<open>wandb.init\<close> has not been called, a run returns only if it
  has no step that makes a parameter update.
\<close>

lemma periodic_eval_returns:
  assumes "evaluable (dev_outputs a (total_step s))"
  shows "\<exists>s'. periodic_eval a s = Inr s'"
  using assms
  by (auto simp: periodic_eval_def evaluable_def accuracy_def Let_def split: prod.splits)

lemma log_phase_returns:
  assumes "is_master a \<longrightarrow> log_step a \<noteq> 0" and "valid_steps a \<noteq> 0"
    and "evaluable (dev_outputs a (total_step s))"
  shows "\<exists>s'. log_phase a s = Inr s'"
proof -
  have "\<exists>b. log_due a (total_step s) = Inr b"
    using assms(1) by (auto simp: log_due_def py_mod_def)
  then obtain b where b: "log_due a (total_step s) = Inr b" by blast
  have "\<exists>v. valid_due a (total_step s) = Inr v"
    using assms(2) by (auto simp: valid_due_def py_mod_def)
  then obtain v where v: "valid_due a (total_step s) = Inr v" by blast
  obtain s2 where s2: "periodic_eval a (emit [TrainLog (total_step s)] s) = Inr s2"
    using periodic_eval_returns[of a "emit [TrainLog (total_step s)] s"] assms(3) by auto
  show ?thesis
    using b v s2 by (cases b; cases v) (simp_all add: log_phase_def Let_def)
qed

lemma update_phase_returns:
  assumes "gradient_accumulation_steps a \<noteq> 0" and "total_step s < length sched"
    and "wandb_initialized a"
  shows "\<exists>s'. update_phase a sched s = Inr s'"
proof -
  have "\<exists>b. update_due a (total_step s) = Inr b"
    using assms(1) by (auto simp: update_due_def py_mod_def)
  then obtain b where b: "update_due a (total_step s) = Inr b" by blast
  show ?thesis
    using b assms(2,3)
    by (cases b) (simp_all add: update_phase_def optimizer_update_def schedule_at_def Let_def)
qed

lemma train_step_returns:
  assumes "is_master a \<longrightarrow> log_step a \<noteq> 0" and "valid_steps a \<noteq> 0"
    and "gradient_accumulation_steps a \<noteq> 0"
    and "\<And>k. evaluable (dev_outputs a k)"
    and "wandb_initialized a"
    and "total_step s < length sched"
  shows "\<exists>s'. train_step a sched s = Inr s'"
proof -
  obtain s1 where 1: "log_phase a s = Inr s1"
    using log_phase_returns[OF assms(1,2) assms(4)] by blast
  have "total_step s1 = total_step s" using log_phase_Inr[OF 1] by simp
  then obtain s' where "update_phase a sched s1 = Inr s'"
    using update_phase_returns[OF assms(3), of s1 sched] assms(5,6) by auto
  then show ?thesis using 1 by (simp add: train_step_def)
qed

lemma batch_loop_returns:
  assumes "is_master a \<longrightarrow> log_step a \<noteq> 0" and "valid_steps a \<noteq> 0"
    and "gradient_accumulation_steps a \<noteq> 0"
    and "\<And>k. evaluable (dev_outputs a k)"
    and "wandb_initialized a"
    and "total_step s + n \<le> length sched" and "grads s = []"
  shows "\<exists>s'. batch_loop a sched n s = Inr s'"
  using assms(6,7)
proof (induction n arbitrary: s)
  case 0
  show ?case by simp
next
  case (Suc n)
  have "total_step s < length sched" using Suc.prems(1) by simp
  from train_step_returns[OF assms(1-5) this]
  obtain s1 where 1: "train_step a sched s = Inr s1" by blast
  note S = train_step_Inr[OF 1 Suc.prems(2)]
  have "total_step s1 + n \<le> length sched" and "grads s1 = []"
    using S Suc.prems(1) by simp_all
  from Suc.IH[OF this] show ?case using 1 by simp
qed

lemma train_returns:
  assumes "0 < epochs a" and "0 < train_batches a"
    and "is_master a \<longrightarrow> log_step a \<noteq> 0" and "valid_steps a \<noteq> 0"
    and "gradient_accumulation_steps a \<noteq> 0"
    and "\<And>k. evaluable (dev_outputs a k)" and "evaluable (test_outputs a)"
    and "wandb_initialized a"
  shows "\<exists>s. train a = Inr s"
proof -
  have pos: "0 < target_total_step a"
    using assms(1,2) by (simp add: target_total_step_def)
  then have sched: "temperature_schedule a = Inr (schedule_of a)"
    by (simp add: temperature_schedule_def schedule_of_def steps_of_def)
  have len: "length (schedule_of a) = steps_of a"
    by (simp add: schedule_of_def)
  have n0: "0 < steps_of a" using pos by (simp add: steps_of_def)
  then have at0: "schedule_at (schedule_of a) 0 = Inr (schedule_of a ! 0)"
    by (simp add: schedule_at_def len)
  have flat: "nat (epochs a) * train_batches a = steps_of a"
    using assms(1)
    by (simp add: steps_of_def target_total_step_def nat_mult_distrib mult.commute)
  have "\<exists>s1. batch_loop a (schedule_of a) (steps_of a) (initial_trainer (schedule_of a ! 0)) = Inr s1"
    by (rule batch_loop_returns[OF assms(3-6) assms(8)]) (simp_all add: initial_trainer_def len)
  then obtain s1 where loop: "epoch_loop a (schedule_of a) (nat (epochs a))
      (initial_trainer (schedule_of a ! 0)) = Inr s1"
    by (auto simp: epoch_loop_flat flat)
  have "\<exists>s2. final_eval a s1 = Inr s2"
    using assms(7)
    by (auto simp: final_eval_def evaluable_def accuracy_def Let_def split: prod.splits)
  then obtain s2 where fin: "final_eval a s1 = Inr s2" by blast
  show ?thesis
    using sched at0 loop fin by (simp add: train_def)
qed

text \<open>
  Without wandb the run of the default arguments ends at its first parameter update, in
  step 0, with the exception of \<open>wandb.log\<close>.
\<close>

lemma update_without_wandb_raises:
  "train (default_run\<lparr>is_wandb := False\<rparr>) = Inl WandbError"
  by code_simp

section \<open>Gradient accumulation\<close>

text \<open>
  Every optimizer step of a completed run consumes the gradient of exactly one batch,
  the one processed at that step, whatever \<open>gradient_accumulation_steps\<close> is, and
  \<open>loss.backward\<close> is called at the steps of an update only.
\<close>

lemma optimizer_step_single_batch:
  assumes "train a = Inr s"
  shows "(OptimizerStep g \<in> set (events s) \<longleftrightarrow>
            (\<exists>k < nat (target_total_step a). updates_at a k \<and> g = [k]))
       \<and> (Backward j \<in> set (events s) \<longleftrightarrow> (j < nat (target_total_step a) \<and> updates_at a j))"
proof -
  note R = train_Inr[OF assms(1)]
  show ?thesis
    using R
    by (auto simp: OptimizerStep_run_events Backward_run_events final_events_def steps_of_def)
qed

text \<open>
  C1. The claim is that the gradient of every batch is computed and that all the batches
  of an accumulation window of \<open>N > 1\<close> batches contribute to the update at its end. On
  four batches with \<open>gradient_accumulation_steps = 2\<close> the run calls \<open>loss.backward\<close>
  once, on the batch of step 2, and the only optimizer step uses the gradient of that
  batch alone: the batches of steps 0, 1 and 3 never contribute, although each loss was
  divided by 2.
\<close>

theorem accumulation_window_single_backward:
  "map_sum id events (train accumulate_run) =
     Inr [SetMode TrainMode, SetTemperature 50, TrainLog 0,
          Backward 2, OptimizerStep [2], SchedulerStep, ZeroGrad, SetTemperature (67 / 4),
          SetMode EvalMode, TestPass 4 EvalMode False, TestLog 4 0,
          SaveModel ''pytorch-rotate-last.bin'' (67 / 4)]"
  by code_simp

section \<open>Periodic evaluation\<close>

text \<open>
  C2, as stated: an evaluation pass runs at every step that is a nonzero multiple of
  \<open>valid_steps\<close>, whatever \<open>log_step\<close> is. With \<open>log_step = 2\<close> and \<open>valid_steps = 3\<close> step
  3 is such a multiple, and the completed run of four steps has no pass over the dev set.
\<close>

theorem evaluation_skipped_off_log_step:
  "int 3 mod valid_steps sparse_log_run = 0 \<and>
   map_sum id events (train sparse_log_run) =
     Inr [SetMode TrainMode, SetTemperature 50,
          TrainLog 0, Backward 0, OptimizerStep [0], SchedulerStep, ZeroGrad, SetTemperature 50,
          Backward 1, OptimizerStep [1], SchedulerStep, ZeroGrad, SetTemperature (133 / 4),
          TrainLog 2, Backward 2, OptimizerStep [2], SchedulerStep, ZeroGrad,
          SetTemperature (67 / 4),
          Backward 3, OptimizerStep [3], SchedulerStep, ZeroGrad, SetTemperature (205 / 2048),
          SetMode EvalMode, TestPass 4 EvalMode False, TestLog 4 0,
          SaveModel ''pytorch-rotate-last.bin'' (205 / 2048)]"
  by code_simp

text \<open>
  C2, amended: in a completed run, a pass over the dev set is made at step \<open>k\<close> exactly
  when the process is the master and \<open>k\<close> is a nonzero multiple of both \<open>log_step\<close> and
  \<open>valid_steps\<close>; every such pass runs with the model in eval mode and gradients
  disabled.
\<close>

theorem periodic_evaluation_steps:
  assumes "train a = Inr s" and "k < nat (target_total_step a)"
  shows "((\<exists>m g. DevPass k m g \<in> set (events s)) \<longleftrightarrow>
            (is_master a \<and> k \<noteq> 0 \<and> int k mod log_step a = 0 \<and> int k mod valid_steps a = 0))
       \<and> (\<forall>m g. DevPass k m g \<in> set (events s) \<longrightarrow> m = EvalMode \<and> \<not> g)"
proof -
  note R = train_Inr[OF assms(1)]
  have "DevPass k m g \<in> set (events s) \<longleftrightarrow> (evaluates_at a k \<and> m = EvalMode \<and> \<not> g)" for m g
    using R assms(2)
    by (auto simp: DevPass_run_events DevPass_final_events steps_of_def)
  then show ?thesis
    by (auto simp: evaluates_at_def)
qed

theorem periodic_evaluation_steps_witness:
  "\<exists>s. train dense_eval_run = Inr s \<and> DevPass 2 EvalMode False \<in> set (events s)"
proof -
  have "case train dense_eval_run of Inl e \<Rightarrow> False | Inr s \<Rightarrow> True"
    by code_simp
  then obtain s where run: "train dense_eval_run = Inr s"
    by (cases "train dense_eval_run") auto
  have k: "2 < nat (target_total_step dense_eval_run)"
    by (simp add: dense_eval_run_def default_run_def target_total_step_def)
  have c: "is_master dense_eval_run \<and> (2::nat) \<noteq> 0 \<and> int 2 mod log_step dense_eval_run = 0
        \<and> int 2 mod valid_steps dense_eval_run = 0"
    by (simp add: dense_eval_run_def default_run_def)
  note P = periodic_evaluation_steps[OF run k]
  from P c obtain m g where d: "DevPass 2 m g \<in> set (events s)"
    by blast
  with P have "m = EvalMode" and "g = False"
    by blast+
  with d run show ?thesis
    by auto
qed

section \<open>The temperature schedule\<close>




section \<open>Evaluation on an empty dataset\<close>

text \<open>
  C4. The claim is that \<open>prealign_eval\<close> on an empty dataloader does not raise, the
  division being guarded. The loop body never runs, \<open>total_count\<close> stays 0 and the
  division raises ZeroDivisionError, whatever the rounding.
\<close>

theorem prealign_eval_empty_raises:
  "prealign_eval rnd [] = Inl ZeroDivisionError"
  by (simp add: prealign_eval_def accuracy_def)

section \<open>The skip check\<close>

lemma file_path_checkpoint_dir:
  "file_path args c = path_join (checkpoint_dir args c) [last_checkpoint]"
  by (simp add: file_path_def checkpoint_dir_def)

text \<open>
  C5, as stated: when no last checkpoint exists, execution proceeds to training. With the
  defaults of the command line (\<open>--do_align\<close> not given) on an empty file system, the
  script makes the two directories, finds no checkpoint, saves the configuration, loads
  the model, runs the pre-alignment evaluation and ends: \<open>train\<close> is not called, though
  the call would have returned.
\<close>

theorem no_checkpoint_no_training:
  "make_dirs list_os no_files default_args default_alignment_config =
     Inr (([''out'', ''out/model:alpaca_7b_task:price_tagging_lb_seed:42_intl:15_intr:80,81''], []),
          [''out'', ''out/model:alpaca_7b_task:price_tagging_lb_seed:42_intl:15_intr:80,81''])
   \<and> \<not> os_path_isfile list_os
         ([''out'', ''out/model:alpaca_7b_task:price_tagging_lb_seed:42_intl:15_intr:80,81''], [])
         (file_path default_args default_alignment_config)
   \<and> main_from_run_name list_os no_files default_args default_alignment_config
         (Inr (1 / 2 :: rat)) (Inr ()) =
       Inr [DirMade ''out'',
            DirMade ''out/model:alpaca_7b_task:price_tagging_lb_seed:42_intl:15_intr:80,81'',
            DasConfigSaved
              ''out/model:alpaca_7b_task:price_tagging_lb_seed:42_intl:15_intr:80,81/das_config'',
            ModelLoaded, PrealignEvaluated (1 / 2)]"
  by code_simp

text \<open>
  C5, amended: for an invocation with the same run name and output directory as the run
  that wrote it, once the output directory and the directory of the run have been made
  if they were absent: if the file \<open>pytorch-rotate-last.bin\<close> exists in the directory of
  the run, the script logs the skip and quits, having done nothing else: the model is
  not loaded and \<open>train\<close> is not called. If the file does not exist, the script does not
  skip: whenever it ends normally it has saved the configuration under the directory of
  the run, loaded the model, called \<open>wandb.init\<close> if \<open>--is_wandb\<close> was given, run the
  pre-alignment evaluation, which returned, and then called \<open>train\<close>, which returned,
  exactly when \<open>--do_align\<close> was given; and it has done nothing else.
\<close>

theorem skip_check:
  assumes "run_name args2 c2 = run_name args1 c1" and "output_dir args2 = output_dir args1"
    and "make_dirs os fs args2 c2 = Inr (fs1, made)"
  shows "(os_path_isfile os fs1 (file_path args1 c1) \<longrightarrow>
            main_from_run_name os fs args2 c2 prealign training =
              Inr (map DirMade made @ [SkipLogged]))
       \<and> (\<not> os_path_isfile os fs1 (file_path args1 c1) \<longrightarrow>
            (\<forall>evs. main_from_run_name os fs args2 c2 prealign training = Inr evs \<longrightarrow>
               (\<exists>p rest. prealign = Inr p \<and>
                  evs = map DirMade made @
                        [DasConfigSaved
                           (path_join (output_dir args1) [run_name args1 c1, ''das_config'']),
                         ModelLoaded] @
                        (if args_is_wandb args2 then [WandbInit (run_name args1 c1)] else []) @
                        [PrealignEvaluated p] @ rest \<and>
                  (if do_align args2 then (\<exists>t. training = Inr t \<and> rest = [TrainCalled t])
                   else rest = []))))"
proof -
  have same: "file_path args2 c2 = file_path args1 c1"
    using assms(1,2) by (simp add: file_path_def)
  show ?thesis
    unfolding main_from_run_name_def same assms
    by (auto simp: Let_def split: sum.splits)
qed

text \<open>
  The witness is a second invocation with \<open>--do_align\<close> and \<open>--is_wandb\<close>, on the file
  system that holds the last checkpoint of the first and on the empty one.
\<close>

theorem skip_check_witness:
  "main_from_run_name list_os finished_run
     (default_args\<lparr>do_align := True, args_is_wandb := True\<rparr>) default_alignment_config
     (Inr (1 / 2 :: rat)) (Inr ()) = Inr [SkipLogged]
   \<and> main_from_run_name list_os no_files
       (default_args\<lparr>do_align := True, args_is_wandb := True\<rparr>) default_alignment_config
       (Inr (1 / 2 :: rat)) (Inr ()) =
     Inr [DirMade ''out'',
          DirMade ''out/model:alpaca_7b_task:price_tagging_lb_seed:42_intl:15_intr:80,81'',
          DasConfigSaved
            ''out/model:alpaca_7b_task:price_tagging_lb_seed:42_intl:15_intr:80,81/das_config'',
          ModelLoaded,
          WandbInit ''model:alpaca_7b_task:price_tagging_lb_seed:42_intl:15_intr:80,81'',
          PrealignEvaluated (1 / 2), TrainCalled ()]"
proof -
  let ?args2 = "default_args\<lparr>do_align := True, args_is_wandb := True\<rparr>"
  let ?c = default_alignment_config
  let ?run = "''model:alpaca_7b_task:price_tagging_lb_seed:42_intl:15_intr:80,81''"
  let ?dir = "''out/model:alpaca_7b_task:price_tagging_lb_seed:42_intl:15_intr:80,81''"
  let ?pre = "Inr (1 / 2) :: py_error + rat"
  let ?tr = "Inr () :: py_error + unit"
  have name: "run_name ?args2 ?c = run_name default_args ?c"
    by (simp add: run_name_def model_base_name_def)
  have dir: "output_dir ?args2 = output_dir default_args"
    by simp
  have rn: "run_name default_args ?c = ?run"
    by code_simp
  have cfg: "path_join (output_dir default_args) [?run, ''das_config'']
      = ''out/model:alpaca_7b_task:price_tagging_lb_seed:42_intl:15_intr:80,81/das_config''"
    by code_simp
  have flags: "do_align ?args2" "args_is_wandb ?args2"
    by simp_all
  have d1: "make_dirs list_os finished_run ?args2 ?c = Inr (finished_run, [])"
    by code_simp
  have there: "os_path_isfile list_os finished_run (file_path default_args ?c)"
    by code_simp
  have d2: "make_dirs list_os no_files ?args2 ?c = Inr (([''out'', ?dir], []), [''out'', ?dir])"
    by code_simp
  have absent: "\<not> os_path_isfile list_os ([''out'', ?dir], []) (file_path default_args ?c)"
    by code_simp
  have "case main_from_run_name list_os no_files ?args2 ?c ?pre ?tr of
          Inl e \<Rightarrow> False | Inr evs \<Rightarrow> True"
    by code_simp
  then obtain evs where run: "main_from_run_name list_os no_files ?args2 ?c ?pre ?tr = Inr evs"
    by (cases "main_from_run_name list_os no_files ?args2 ?c ?pre ?tr") auto
  note S1 = skip_check[OF name dir d1, of ?pre ?tr]
  note S2 = skip_check[OF name dir d2, of ?pre ?tr]
  from S1 there have first:
    "main_from_run_name list_os finished_run ?args2 ?c ?pre ?tr = Inr [SkipLogged]"
    by simp
  from S2 absent run obtain p rest where
    "?pre = Inr p" and
    "evs = map DirMade [''out'', ?dir] @
           [DasConfigSaved (path_join (output_dir default_args)
                              [run_name default_args ?c, ''das_config'']), ModelLoaded] @
           (if args_is_wandb ?args2 then [WandbInit (run_name default_args ?c)] else []) @
           [PrealignEvaluated p] @ rest" and
    "if do_align ?args2 then (\<exists>t. ?tr = Inr t \<and> rest = [TrainCalled t]) else rest = []"
    by blast
  then have "evs = [DirMade ''out'', DirMade ?dir,
                    DasConfigSaved
                      ''out/model:alpaca_7b_task:price_tagging_lb_seed:42_intl:15_intr:80,81/das_config'',
                    ModelLoaded, WandbInit ?run, PrealignEvaluated (1 / 2), TrainCalled ()]"
    unfolding rn cfg using flags by auto
  with first run show ?thesis
    by simp
qed

section \<open>Best and last checkpoints\<close>

text \<open>
  C6. In a completed run, every evaluation accuracy that the trace logs is followed at
  once by the save of the best checkpoint (rotation, boundaries and temperature) if it
  strictly exceeds the best accuracy logged before it in the run (\<open>-1\<close>, the initial
  value of \<open>best_eval_acc\<close>, when there is none), and by no save otherwise; in both cases
  the next call puts the model back in train mode. On the master process, which is the
  only process the script starts, the last call of the run is the save of the last
  checkpoint, whatever the accuracies were.
\<close>

theorem best_and_last_checkpoints:
  assumes "train a = Inr s"
  shows "(\<forall>pre k acc post. events s = pre @ EvalLog k acc # post \<longrightarrow>
            (if best_seen pre < acc
             then (\<exists>t post'. post = SaveModel best_checkpoint t # SetMode TrainMode # post')
             else (\<exists>post'. post = SetMode TrainMode # post')))
       \<and> (is_master a \<longrightarrow> last (events s) = SaveModel last_checkpoint (temperature s))"
proof -
  note R = train_Inr[OF assms(1)]
  let ?init = "[SetMode TrainMode, SetTemperature (schedule_of a ! 0)]"
  let ?F = "final_events a (temperature s) (steps_of a)"
  have ev: "events s = ?init @
      run_events a (schedule_of a) (- 1) (schedule_of a ! 0) 0 (steps_of a) @ ?F"
    using R by simp
  have ni: "no_eval_log ?init" by simp
  have b0: "best_seen ?init = - 1" by (simp add: best_seen_def)
  have "best_rule pre acc post" if sp: "events s = pre @ EvalLog k acc # post" for pre k acc post
  proof -
    have "?init @ (run_events a (schedule_of a) (- 1) (schedule_of a ! 0) 0 (steps_of a) @ ?F)
          = pre @ EvalLog k acc # post"
      using ev sp by simp
    from split_no_eval_log[OF ni this]
    obtain p where p: "pre = ?init @ p"
      and r: "run_events a (schedule_of a) (- 1) (schedule_of a ! 0) 0 (steps_of a) @ ?F
              = p @ EvalLog k acc # post"
      by blast
    from best_rule_run_events[OF b0 r] show ?thesis using p by simp
  qed
  moreover have "last (events s) = SaveModel last_checkpoint (temperature s)" if "is_master a"
    unfolding ev using that by (simp add: final_events_def)
  ultimately show ?thesis
    by (simp add: best_rule_def)
qed

text \<open>
  The witness is the run that evaluates at steps 1, 2 and 3 with accuracies \<open>1 / 2\<close>,
  \<open>1 / 2\<close> and \<open>1\<close>: the best checkpoint is saved at steps 1 and 3 and not at step 2.
\<close>

theorem best_and_last_checkpoints_witness:
  "map_sum id events (train dense_eval_run) =
     Inr [SetMode TrainMode, SetTemperature 50,
          TrainLog 0, Backward 0, OptimizerStep [0], SchedulerStep, ZeroGrad, SetTemperature 50,
          TrainLog 1, SetMode EvalMode, DevPass 1 EvalMode False, EvalLog 1 (1 / 2),
          SaveModel ''pytorch-rotate-best.bin'' 50, SetMode TrainMode,
          Backward 1, OptimizerStep [1], SchedulerStep, ZeroGrad, SetTemperature (133 / 4),
          TrainLog 2, SetMode EvalMode, DevPass 2 EvalMode False, EvalLog 2 (1 / 2),
          SetMode TrainMode,
          Backward 2, OptimizerStep [2], SchedulerStep, ZeroGrad, SetTemperature (67 / 4),
          TrainLog 3, SetMode EvalMode, DevPass 3 EvalMode False, EvalLog 3 1,
          SaveModel ''pytorch-rotate-best.bin'' (67 / 4), SetMode TrainMode,
          Backward 3, OptimizerStep [3], SchedulerStep, ZeroGrad, SetTemperature (205 / 2048),
          SetMode EvalMode, TestPass 4 EvalMode False, TestLog 4 0,
          SaveModel ''pytorch-rotate-last.bin'' (205 / 2048)]
   \<and> (\<exists>s. train dense_eval_run = Inr s \<and> is_master dense_eval_run \<and>
          last (events s) = SaveModel last_checkpoint (temperature s))"
proof -
  have trace: "map_sum id events (train dense_eval_run) =
     Inr [SetMode TrainMode, SetTemperature 50,
          TrainLog 0, Backward 0, OptimizerStep [0], SchedulerStep, ZeroGrad, SetTemperature 50,
          TrainLog 1, SetMode EvalMode, DevPass 1 EvalMode False, EvalLog 1 (1 / 2),
          SaveModel ''pytorch-rotate-best.bin'' 50, SetMode TrainMode,
          Backward 1, OptimizerStep [1], SchedulerStep, ZeroGrad, SetTemperature (133 / 4),
          TrainLog 2, SetMode EvalMode, DevPass 2 EvalMode False, EvalLog 2 (1 / 2),
          SetMode TrainMode,
          Backward 2, OptimizerStep [2], SchedulerStep, ZeroGrad, SetTemperature (67 / 4),
          TrainLog 3, SetMode EvalMode, DevPass 3 EvalMode False, EvalLog 3 1,
          SaveModel ''pytorch-rotate-best.bin'' (67 / 4), SetMode TrainMode,
          Backward 3, OptimizerStep [3], SchedulerStep, ZeroGrad, SetTemperature (205 / 2048),
          SetMode EvalMode, TestPass 4 EvalMode False, TestLog 4 0,
          SaveModel ''pytorch-rotate-last.bin'' (205 / 2048)]"
    by code_simp
  have "case train dense_eval_run of Inl e \<Rightarrow> False | Inr s \<Rightarrow> True"
    by code_simp
  then obtain s where run: "train dense_eval_run = Inr s"
    by (cases "train dense_eval_run") auto
  have m: "is_master dense_eval_run"
    by (simp add: dense_eval_run_def default_run_def)
  from best_and_last_checkpoints[OF run] run m trace show ?thesis
    by blast
qed

section \<open>The run name\<close>

text \<open>
  C7. Two invocations whose model base name, task name, seed, layer and token range are
  equal have the same run name, character for character, whatever their other arguments
  are; under the same output directory they then have the same checkpoint directory.
\<close>

theorem run_name_deterministic:
  assumes "model_base_name a1 = model_base_name a2"
    and "task_name a1 = task_name a2"
    and "seed a1 = seed a2"
    and "config_layer c1 = config_layer c2"
    and "config_token_range c1 = config_token_range c2"
  shows "run_name a1 c1 = run_name a2 c2
       \<and> (output_dir a1 = output_dir a2 \<longrightarrow> checkpoint_dir a1 c1 = checkpoint_dir a2 c2)"
  using assms by (simp add: run_name_def checkpoint_dir_def)

theorem run_name_deterministic_witness:
  "run_name default_args default_alignment_config = run_name other_args default_alignment_config
   \<and> run_name other_args default_alignment_config =
       ''model:alpaca_7b_task:price_tagging_lb_seed:42_intl:15_intr:80,81''
   \<and> checkpoint_dir default_args default_alignment_config =
       checkpoint_dir (other_args\<lparr>output_dir := ''out''\<rparr>) default_alignment_config"
proof -
  have 1: "model_base_name default_args = model_base_name other_args" by code_simp
  have 2: "task_name default_args = task_name other_args"
    by (simp add: other_args_def)
  have 3: "seed default_args = seed other_args"
    by (simp add: other_args_def)
  have 4: "run_name default_args default_alignment_config =
       ''model:alpaca_7b_task:price_tagging_lb_seed:42_intl:15_intr:80,81''"
    by code_simp
  have m1: "model_base_name default_args = model_base_name (other_args\<lparr>output_dir := ''out''\<rparr>)"
    using 1 by (simp add: model_base_name_def)
  have m2: "task_name default_args = task_name (other_args\<lparr>output_dir := ''out''\<rparr>)"
    using 2 by simp
  have m3: "seed default_args = seed (other_args\<lparr>output_dir := ''out''\<rparr>)"
    using 3 by simp
  have 5: "output_dir default_args = output_dir (other_args\<lparr>output_dir := ''out''\<rparr>)"
    by (simp add: default_args_def)
  from run_name_deterministic[OF 1 2 3 refl refl, of default_alignment_config]
       run_name_deterministic[OF m1 m2 m3 refl refl, of default_alignment_config] 4 5
  show ?thesis by simp
qed

section \<open>Unbound names in the continent matching samplers\<close>

text \<open>
  C8. Every call of \<open>continent1_source_sampler\<close> raises NameError for the name
  \<open>base_continent2\<close>, whatever the label asked for, and no call of
  \<open>_are_same_continent\<close> returns: it raises KeyError when its first country is not a key
  of the map and NameError for the name \<open>countryt2\<close> otherwise.
\<close>

theorem unbound_names_raise:
  "continent1_source_sampler self rng base_country1 base_country2 ctf_label_str
     = Inl (NameError ''base_continent2'')
   \<and> are_same_continent self country1 country2 =
       (if country1 \<in> fst ` set (country_to_continent self)
        then Inl (NameError ''countryt2'') else Inl (KeyError country1))
   \<and> (\<exists>e. are_same_continent self country1 country2 = Inl e)"
proof -
  have 1: "continent1_source_sampler self rng base_country1 base_country2 ctf_label_str
     = Inl (NameError ''base_continent2'')"
    unfolding continent1_source_sampler_def Let_def load_name_base_continent2
    by simp
  have 2: "are_same_continent self country1 country2 =
       (if country1 \<in> fst ` set (country_to_continent self)
        then Inl (NameError ''countryt2'') else Inl (KeyError country1))"
  proof (cases "map_of (country_to_continent self) country1")
    case None
    then have "country1 \<notin> fst ` set (country_to_continent self)"
      by (simp add: map_of_eq_None_iff)
    then show ?thesis
      using None by (simp add: are_same_continent_def dict_get_def)
  next
    case (Some v)
    then have "country1 \<in> fst ` set (country_to_continent self)"
      by (metis map_of_eq_None_iff option.distinct(1))
    then show ?thesis
      using Some
      unfolding are_same_continent_def Let_def load_name_countryt2
      by (simp add: dict_get_def)
  qed
  from 1 2 show ?thesis by simp
qed

theorem unbound_names_raise_witness:
  "continent1_source_sampler three_countries (id, 0) ''Peru'' ''Chile'' YES_LABEL
     = Inl (NameError ''base_continent2'')
   \<and> continent1_source_sampler three_countries (id, 0) ''Peru'' ''Chile'' NO_LABEL
     = Inl (NameError ''base_continent2'')
   \<and> are_same_continent three_countries ''Peru'' ''Kenya'' = Inl (NameError ''countryt2'')
   \<and> are_same_continent three_countries ''Atlantis'' ''Kenya'' = Inl (KeyError ''Atlantis'')"
proof -
  have k: "''Peru'' \<in> fst ` set (country_to_continent three_countries)"
    by (simp add: three_countries_def)
  have n: "''Atlantis'' \<notin> fst ` set (country_to_continent three_countries)"
    by (simp add: three_countries_def)
  from unbound_names_raise[of three_countries "(id, 0)" "''Peru''" "''Chile''" YES_LABEL "''Peru''" "''Kenya''"]
       unbound_names_raise[of three_countries "(id, 0)" "''Peru''" "''Chile''" NO_LABEL
          "''Atlantis''" "''Kenya''"] k n
  show ?thesis by simp
qed

section \<open>Order independence of the accuracy\<close>

text \<open>
  C9. The accuracy that \<open>compute_metrics\<close> and \<open>prealign_eval\<close> report depends only on the
  multiset of the evaluated (prediction, label) pairs: two lists of batches whose
  examples are a permutation of each other, whatever the order of the examples and
  however they are split into batches, give the same result (the same accuracy, or the
  same exception).
\<close>

theorem accuracy_order_independent:
  assumes "mset (concat pbs) = mset (concat pbs')"
    and "mset (concat (map batch_pairs bs)) = mset (concat (map batch_pairs bs'))"
  shows "compute_metrics rnd (map (map fst) pbs) (map (map snd) pbs)
           = compute_metrics rnd (map (map fst) pbs') (map (map snd) pbs')
       \<and> prealign_eval rnd bs = prealign_eval rnd bs'"
  using compute_metrics_perm[OF assms(1)] prealign_eval_perm[OF assms(2)]
  by simp

theorem accuracy_order_independent_witness:
  "compute_metrics (\<lambda>q. q) [[[[1, 5, 2 :: int]], [[3, 1, 0]]], [[[0, 2, 9]]]]
       [[[7, 1], [7, 1]], [[4, 2]]] = Inr (2 / 3)
   \<and> compute_metrics (\<lambda>q. q) [[[[0, 2, 9 :: int]], [[3, 1, 0]], [[1, 5, 2]]]]
       [[[4, 2], [7, 1], [7, 1]]] = Inr (2 / 3)
   \<and> prealign_eval (\<lambda>q. q) [([''Yes'', ''No''], [''yes'', ''yes''])] = Inr (1 / 2)
   \<and> prealign_eval (\<lambda>q. q) [([''No''], [''yes'']), ([''Yes''], [''yes''])] = Inr (1 / 2)"
proof -
  let ?r1 = "([[1, 5, 2 :: int]], [7, 1 :: int])"
  let ?r2 = "([[3, 1, 0 :: int]], [7, 1 :: int])"
  let ?r3 = "([[0, 2, 9 :: int]], [4, 2 :: int])"
  have h1: "mset (concat [[?r1, ?r2], [?r3]]) = mset (concat [[?r3, ?r2, ?r1]])"
    by simp
  have h2: "mset (concat (map batch_pairs [([''Yes'', ''No''], [''yes'', ''yes''])]))
          = mset (concat (map batch_pairs [([''No''], [''yes'']), ([''Yes''], [''yes''])]))"
    by (simp add: batch_pairs_def)
  have v1: "compute_metrics (\<lambda>q. q) [[[[1, 5, 2 :: int]], [[3, 1, 0]]], [[[0, 2, 9]]]]
       [[[7, 1], [7, 1]], [[4, 2]]] = Inr (2 / 3)"
    by code_simp
  have v2: "prealign_eval (\<lambda>q. q) [([''Yes'', ''No''], [''yes'', ''yes''])] = Inr (1 / 2)"
    by code_simp
  from accuracy_order_independent[OF h1 h2, of "\<lambda>q. q"] v1 v2
  show ?thesis by simp
qed

section \<open>Encoded labels\<close>

text \<open>
  C10, as stated: the labels of every encoded example have length 40. The prompt for Peru
  and Chile has 81 characters; under a tokenizer with one token per character it encodes
  to 82 ids, nothing truncates them, and the labels have length 82.
\<close>

theorem encoded_labels_longer_than_40:
  "map_sum id (\<lambda>(input_ids, labels). (length input_ids, length labels))
     (encode_input_and_target char_tokenizer (format_prompt ''Peru'' ''Chile'') ''No'')
   = Inr (82, 82)"
  by code_simp

text \<open>
  C10, amended: for every example encoded by \<open>_encode_input_and_target\<close> or
  \<open>_encode_examples\<close>, the labels have the length of the padded \<open>input_ids\<close>, which is 40
  when the input has at most 40 tokens and the number of its tokens otherwise; every
  entry of the labels but the last is \<open>-100\<close>, the last is the id of the target token,
  and \<open>output_only_labels\<close> holds, for each example, the list of that one id.
\<close>

theorem encoded_labels:
  "encode_input_and_target tok input_string target_string =
     Inr (tokenizer_call tok input_string 40, labels_for tok input_string target_string)
   \<and> (\<exists>srcs. encode_examples tok examples =
         Inr (map (\<lambda>ex. tokenizer_call tok (inputs ex) 40) examples, srcs,
              map (\<lambda>ex. labels_for tok (inputs ex) (targets ex)) examples))
   \<and> length (labels_for tok input_string target_string) =
       length (tokenizer_call tok input_string 40)
   \<and> length (tokenizer_call tok input_string 40) = max 40 (length (encode tok input_string))
   \<and> (\<forall>i < length (labels_for tok input_string target_string) - 1.
         labels_for tok input_string target_string ! i = - 100)
   \<and> last (labels_for tok input_string target_string) = convert_tokens_to_ids tok target_string
   \<and> output_only_labels (map (\<lambda>ex. labels_for tok (inputs ex) (targets ex)) examples) =
       map (\<lambda>ex. [convert_tokens_to_ids tok (targets ex)]) examples"
proof -
  have 1: "encode_input_and_target tok input_string target_string =
     Inr (tokenizer_call tok input_string 40, labels_for tok input_string target_string)"
    by (simp add: encode_input_and_target_def Let_def set_last_labels)
  obtain srcs where "encode_examples_loop tok examples ([], [], []) =
     Inr ([] @ map (\<lambda>ex. tokenizer_call tok (inputs ex) 40) examples, srcs,
          [] @ map (\<lambda>ex. labels_for tok (inputs ex) (targets ex)) examples)"
    using encode_examples_loop_closed[of tok examples "[]" "[]" "[]"] by blast
  then have 2: "\<exists>srcs. encode_examples tok examples =
         Inr (map (\<lambda>ex. tokenizer_call tok (inputs ex) 40) examples, srcs,
              map (\<lambda>ex. labels_for tok (inputs ex) (targets ex)) examples)"
    by (simp add: encode_examples_def)
  have 3: "length (labels_for tok input_string target_string) =
       length (tokenizer_call tok input_string 40)"
    by (simp add: labels_for_def length_tokenizer_call)
  have 4: "length (tokenizer_call tok input_string 40) = max 40 (length (encode tok input_string))"
    by (rule length_tokenizer_call)
  have 5: "\<forall>i < length (labels_for tok input_string target_string) - 1.
         labels_for tok input_string target_string ! i = - 100"
    by (simp add: labels_for_def nth_append)
  have 6: "last (labels_for tok input_string target_string) = convert_tokens_to_ids tok target_string"
    by (simp add: labels_for_def)
  have 7: "output_only_labels (map (\<lambda>ex. labels_for tok (inputs ex) (targets ex)) examples) =
       map (\<lambda>ex. [convert_tokens_to_ids tok (targets ex)]) examples"
    by (simp add: output_only_labels_def labels_for_def)
  from 1 2 3 4 5 6 7 show ?thesis by blast
qed

theorem encoded_labels_witness:
  "encode_input_and_target char_tokenizer ''Are they?'' ''Yes'' =
     Inr (replicate 30 0 @ [68, 117, 104, 35, 119, 107, 104, 124, 66, 1],
          replicate 39 (- 100) @ [260])
   \<and> labels_for char_tokenizer ''Are they?'' ''Yes'' ! 0 = - 100"
proof -
  have l: "labels_for char_tokenizer ''Are they?'' ''Yes'' = replicate 39 (- 100) @ [260]"
    by code_simp
  have t: "tokenizer_call char_tokenizer ''Are they?'' 40 =
      replicate 30 0 @ [68, 117, 104, 35, 119, 107, 104, 124, 66, 1]"
    by code_simp
  have i: "0 < length (labels_for char_tokenizer ''Are they?'' ''Yes'') - 1"
    unfolding l by simp
  from encoded_labels[of char_tokenizer "''Are they?''" "''Yes''" "[]"] i l t
  show ?thesis by simp
qed

end
